theory Spec2Isabelle
  imports Complex_Main
begin

section \<open>Errors and float arithmetic\<close>

text \<open>
  A Python exception is modelled by its class name and its message. A Python float is
  modelled by the real number it denotes: rounding and overflow are not modelled. A float
  computation that leaves the finite reals (it yields \<open>nan\<close>, \<open>inf\<close> or a complex
  number) has no real value; the model stops there with \<open>NotReal\<close>, which is a marker of
  the model and not an exception of the program.
\<close>

datatype error = Err string string | NotReal

fun error_class :: "error \<Rightarrow> string" where
  "error_class (Err cls msg) = cls"
| "error_class NotReal = ''''"

definition ZeroDivisionError :: error where
  "ZeroDivisionError = Err ''ZeroDivisionError'' ''float division by zero''"

definition TypeError :: error where
  "TypeError = Err ''TypeError'' ''object is not callable''"

definition AttributeError :: "string \<Rightarrow> error" where
  "AttributeError attr = Err ''AttributeError'' attr"

definition bind_err :: "error + 'a \<Rightarrow> ('a \<Rightarrow> error + 'b) \<Rightarrow> error + 'b" where
  "bind_err r f = (case r of Inl e \<Rightarrow> Inl e | Inr v \<Rightarrow> f v)"

text \<open>\<open>np.log\<close>: \<open>-inf\<close> at 0 and \<open>nan\<close> below, with a warning and no exception.\<close>

definition np_log :: "real \<Rightarrow> error + real" where
  "np_log x = (if 0 < x then Inr (ln x) else Inl NotReal)"

text \<open>\<open>/\<close> on two Python floats raises on a zero divisor; on numpy floats it yields
  \<open>inf\<close> or \<open>nan\<close>.\<close>

definition py_div :: "real \<Rightarrow> real \<Rightarrow> error + real" where
  "py_div x y = (if y = 0 then Inl ZeroDivisionError else Inr (x / y))"

definition np_div :: "real \<Rightarrow> real \<Rightarrow> error + real" where
  "np_div x y = (if y = 0 then Inl NotReal else Inr (x / y))"

text \<open>\<open>**\<close> on Python floats: \<open>x ** 0\<close> is 1; zero to a negative power raises; a negative
  base with a fractional exponent gives a complex number. On numpy floats the last two
  cases give \<open>inf\<close> and \<open>nan\<close>.\<close>

definition py_pow :: "real \<Rightarrow> real \<Rightarrow> error + real" where
  "py_pow x y =
     (if y = 0 then Inr 1
      else if 0 < x then Inr (x powr y)
      else if x = 0 then (if 0 < y then Inr 0 else Inl ZeroDivisionError)
      else if y = of_int \<lfloor>y\<rfloor> then Inr (x powi \<lfloor>y\<rfloor>)
      else Inl NotReal)"

definition np_pow :: "real \<Rightarrow> real \<Rightarrow> error + real" where
  "np_pow x y = (case py_pow x y of Inl e \<Rightarrow> Inl NotReal | Inr v \<Rightarrow> Inr v)"

text \<open>Calling a float: \<open>v()\<close> raises TypeError whatever \<open>v\<close> is.\<close>

definition call_float :: "real \<Rightarrow> error + real" where
  "call_float v = Inl TypeError"

section \<open>Ejecta relations (redback/ejecta\_relations.py)\<close>

subsection \<open>Module-level helpers\<close>

definition calc_compactness_from_lambda :: "real \<Rightarrow> error + real" where
  "calc_compactness_from_lambda lam =
     bind_err (np_log lam) (\<lambda>log1.
     bind_err (np_log lam) (\<lambda>log2.
     Inr (0.371 - 0.0391 * log1 + 0.001056 * log2 ^ 2)))"

definition calc_baryonic_mass :: "real \<Rightarrow> real \<Rightarrow> error + real" where
  "calc_baryonic_mass mass compactness =
     bind_err (np_pow compactness 1.2082383572002926) (\<lambda>p.
     Inr (mass * (1 + 0.8857853174243745 * p)))"

definition calc_vrho :: "real \<Rightarrow> real \<Rightarrow> real \<Rightarrow> real \<Rightarrow> error + real" where
  "calc_vrho m1 m2 lam1 lam2 =
     (let a = -0.219479; b = 0.444836; c = -2.67385 in
      bind_err (calc_compactness_from_lambda lam1) (\<lambda>compactness_1.
      bind_err (calc_compactness_from_lambda lam2) (\<lambda>compactness_2.
      bind_err (py_div m1 m2) (\<lambda>q12.
      bind_err (py_div m2 m1) (\<lambda>q21.
      Inr ((q12 * (1.0 + c * compactness_1) + q21 * (1.0 + c * compactness_2)) * a + b))))))"

definition calc_vz :: "real \<Rightarrow> real \<Rightarrow> real \<Rightarrow> real \<Rightarrow> error + real" where
  "calc_vz m1 m2 lam1 lam2 =
     (let a = -0.315585; b = 0.63808; c = -1.00757 in
      bind_err (calc_compactness_from_lambda lam1) (\<lambda>compactness_1.
      bind_err (calc_compactness_from_lambda lam2) (\<lambda>compactness_2.
      bind_err (py_div m1 m2) (\<lambda>q12.
      bind_err (py_div m2 m1) (\<lambda>q21.
      Inr ((q12 * (1.0 + c * compactness_1) + q21 * (1.0 + c * compactness_2)) * a + b))))))"

subsection \<open>The two binary-neutron-star classes\<close>

text \<open>
  An instance of \<open>OneComponentBNSNoProjection\<close> or \<open>OneComponentBNSProjection\<close>. The
  constructor assigns the attributes in the order of the fields; the last four are
  assigned from property values, and an attribute that is not assigned yet is \<open>None\<close>
  (reading it raises AttributeError).
\<close>

record bns =
  mass_1 :: real
  mass_2 :: real
  lambda_1 :: real
  lambda_2 :: real
  c1 :: real
  c2 :: real
  reference :: string
  vrho :: real
  vz :: real
  ejecta_mass :: "real option"
  ejecta_velocity :: "real option"
  qej :: "real option"
  phej :: "real option"

definition dietrich_ujevic_2017 :: string where
  "dietrich_ujevic_2017 = ''https://ui.adsabs.harvard.edu/abs/2017CQGra..34j5014D/abstract''"

text \<open>Lines 16 to 24 and 99 to 107: the attributes assigned before the first property is read.\<close>

definition NoProjection_attrs :: "real \<Rightarrow> real \<Rightarrow> real \<Rightarrow> real \<Rightarrow> error + bns" where
  "NoProjection_attrs m1 m2 lam1 lam2 =
     bind_err (calc_compactness_from_lambda lam1) (\<lambda>c1v.
     bind_err (calc_compactness_from_lambda lam2) (\<lambda>c2v.
     bind_err (calc_vrho m1 m2 lam1 lam2) (\<lambda>vrhov.
     bind_err (calc_vz m1 m2 lam1 lam2) (\<lambda>vzv.
     Inr \<lparr>mass_1 = m1, mass_2 = m2, lambda_1 = lam1, lambda_2 = lam2, c1 = c1v, c2 = c2v,
          reference = dietrich_ujevic_2017, vrho = vrhov, vz = vzv,
          ejecta_mass = None, ejecta_velocity = None, qej = None, phej = None\<rparr>))))"

definition Projection_attrs :: "real \<Rightarrow> real \<Rightarrow> real \<Rightarrow> real \<Rightarrow> error + bns" where
  "Projection_attrs m1 m2 lam1 lam2 =
     bind_err (calc_compactness_from_lambda lam1) (\<lambda>c1v.
     bind_err (calc_compactness_from_lambda lam2) (\<lambda>c2v.
     bind_err (calc_vrho m1 m2 lam1 lam2) (\<lambda>vrhov.
     bind_err (calc_vz m1 m2 lam1 lam2) (\<lambda>vzv.
     Inr \<lparr>mass_1 = m1, mass_2 = m2, lambda_1 = lam1, lambda_2 = lam2, c1 = c1v, c2 = c2v,
          reference = dietrich_ujevic_2017, vrho = vrhov, vz = vzv,
          ejecta_mass = None, ejecta_velocity = None, qej = None, phej = None\<rparr>))))"

text \<open>The properties of \<open>OneComponentBNSNoProjection\<close>.\<close>

definition NoProjection_calculate_ejecta_velocity :: "bns \<Rightarrow> error + real" where
  "NoProjection_calculate_ejecta_velocity self =
     (let a = -0.3090; b = 0.657; c = -1.879 in
      bind_err (py_div (mass_1 self) (mass_2 self)) (\<lambda>q12.
      bind_err (py_div (mass_2 self) (mass_1 self)) (\<lambda>q21.
      Inr (a * q12 * (1 + c * c1 self) + a * q21 * (1 + c * c2 self) + b))))"

definition NoProjection_calculate_ejecta_mass :: "bns \<Rightarrow> error + real" where
  "NoProjection_calculate_ejecta_mass self =
     (let a = -0.0719; b = 0.2116; d = -2.42; n = -2.905 in
      bind_err (np_div (mass_1 self * (1 - 2 * c1 self)) (c1 self)) (\<lambda>t1.
      bind_err (np_div (mass_2 self * (1 - 2 * c2 self)) (c2 self)) (\<lambda>t2.
      bind_err (py_div (mass_2 self) (mass_1 self)) (\<lambda>q21.
      bind_err (py_pow q21 n) (\<lambda>p21.
      bind_err (py_div (mass_1 self) (mass_2 self)) (\<lambda>q12.
      bind_err (py_pow q12 n) (\<lambda>p12.
      bind_err (np_pow 10 (a * (t1 + t2) + b * (mass_1 self * p21 + mass_2 self * p12) + d))
        (\<lambda>mej. Inr mej))))))))"

definition NoProjection_calculate_qej :: "bns \<Rightarrow> error + real" where
  "NoProjection_calculate_qej self =
     (let tmp1 = 3 * vz self + sqrt (9 * (vz self) ^ 2 + 4 * (vrho self) ^ 2) in
      bind_err (py_pow 2.0 (4.0 / 3.0)) (\<lambda>k.
      bind_err (np_pow (2 * (vrho self) ^ 2 * tmp1) (2.0 / 3.0)) (\<lambda>num2.
      bind_err (np_pow (vrho self) 5.0) (\<lambda>v5.
      bind_err (np_pow (v5 * tmp1) (1.0 / 3.0)) (\<lambda>den.
      np_div (k * (vrho self) ^ 2 + num2) den)))))"

definition NoProjection_calculate_phej :: "bns \<Rightarrow> error + real" where
  "NoProjection_calculate_phej self =
     (case qej self of
        None \<Rightarrow> Inl (AttributeError ''qej'')
      | Some q \<Rightarrow> Inr (4.0 * q * pi / 2.0))"

text \<open>The properties of \<open>OneComponentBNSProjection\<close>.\<close>

definition Projection_calculate_ejecta_velocity :: "bns \<Rightarrow> error + real" where
  "Projection_calculate_ejecta_velocity self =
     bind_err (np_pow (vrho self) 2.0) (\<lambda>vr2.
     bind_err (np_pow (vz self) 2.0) (\<lambda>vz2.
     np_pow (vr2 + vz2) 0.5))"

definition Projection_calculate_ejecta_mass :: "bns \<Rightarrow> error + real" where
  "Projection_calculate_ejecta_mass self =
     (let a = -1.35695; b = 6.11252; c = -49.43355; d = 16.1144; n = -2.5484 in
      bind_err (calc_baryonic_mass (mass_1 self) (c1 self)) (\<lambda>mb1.
      bind_err (calc_baryonic_mass (mass_2 self) (c2 self)) (\<lambda>mb2.
      bind_err (py_div (mass_2 self) (mass_1 self)) (\<lambda>q21.
      bind_err (py_pow q21 (1.0 / 3.0)) (\<lambda>r21.
      bind_err (np_div (mb1 * r21 * (1.0 - 2.0 * c1 self)) (c1 self)) (\<lambda>t1.
      bind_err (py_div (mass_1 self) (mass_2 self)) (\<lambda>q12.
      bind_err (py_pow q12 (1.0 / 3.0)) (\<lambda>r12.
      bind_err (np_div (mb2 * r12 * (1.0 - 2.0 * c2 self)) (c2 self)) (\<lambda>t2.
      bind_err (py_div (mass_2 self) (mass_1 self)) (\<lambda>q21'.
      bind_err (py_pow q21' n) (\<lambda>p21.
      bind_err (py_div (mass_1 self) (mass_2 self)) (\<lambda>q12'.
      bind_err (py_pow q12' n) (\<lambda>p12.
      bind_err (np_div (mass_1 self) mb1) (\<lambda>f1.
      bind_err (np_div (mass_2 self) mb2) (\<lambda>f2.
      (let tmp1 = (t1 + t2) * a;
           tmp2 = (mb1 * p21 + mb2 * p12) * b;
           tmp3 = (mb1 * (1.0 - f1) + mb2 * (1.0 - f2)) * c
       in Inr (max (tmp1 + tmp2 + tmp3 + d) 0 / 1000.0)))))))))))))))))"

definition Projection_calculate_qej :: "bns \<Rightarrow> error + real" where
  "Projection_calculate_qej self =
     (let tmp1 = 3 * vz self + sqrt (9 * (vz self) ^ 2 + 4 * (vrho self) ^ 2) in
      bind_err (py_pow 2.0 (4.0 / 3.0)) (\<lambda>k.
      bind_err (np_pow (2 * (vrho self) ^ 2 * tmp1) (2.0 / 3.0)) (\<lambda>num2.
      bind_err (np_pow (vrho self) 5.0) (\<lambda>v5.
      bind_err (np_pow (v5 * tmp1) (1.0 / 3.0)) (\<lambda>den.
      np_div (k * (vrho self) ^ 2 + num2) den)))))"

definition Projection_calculate_phej :: "bns \<Rightarrow> error + real" where
  "Projection_calculate_phej self =
     (case qej self of
        None \<Rightarrow> Inl (AttributeError ''qej'')
      | Some q \<Rightarrow> Inr (4.0 * q * pi / 2.0))"

text \<open>
  The constructors. Every \<open>calculate_*\<close> is a property, so \<open>self.calculate_ejecta_mass\<close>
  is already the float, and the parentheses that follow call that float.
\<close>

definition OneComponentBNSNoProjection :: "real \<Rightarrow> real \<Rightarrow> real \<Rightarrow> real \<Rightarrow> error + bns" where
  "OneComponentBNSNoProjection m1 m2 lam1 lam2 =
     bind_err (NoProjection_attrs m1 m2 lam1 lam2) (\<lambda>self.
     bind_err (NoProjection_calculate_ejecta_mass self) (\<lambda>p.
     bind_err (call_float p) (\<lambda>v.
     (let self = self\<lparr>ejecta_mass := Some v\<rparr> in
     bind_err (NoProjection_calculate_ejecta_velocity self) (\<lambda>p.
     bind_err (call_float p) (\<lambda>v.
     (let self = self\<lparr>ejecta_velocity := Some v\<rparr> in
     bind_err (NoProjection_calculate_qej self) (\<lambda>p.
     bind_err (call_float p) (\<lambda>v.
     (let self = self\<lparr>qej := Some v\<rparr> in
     bind_err (NoProjection_calculate_phej self) (\<lambda>p.
     bind_err (call_float p) (\<lambda>v.
     Inr (self\<lparr>phej := Some v\<rparr>)))))))))))))"

definition OneComponentBNSProjection :: "real \<Rightarrow> real \<Rightarrow> real \<Rightarrow> real \<Rightarrow> error + bns" where
  "OneComponentBNSProjection m1 m2 lam1 lam2 =
     bind_err (Projection_attrs m1 m2 lam1 lam2) (\<lambda>self.
     bind_err (Projection_calculate_ejecta_mass self) (\<lambda>p.
     bind_err (call_float p) (\<lambda>v.
     (let self = self\<lparr>ejecta_mass := Some v\<rparr> in
     bind_err (Projection_calculate_ejecta_velocity self) (\<lambda>p.
     bind_err (call_float p) (\<lambda>v.
     (let self = self\<lparr>ejecta_velocity := Some v\<rparr> in
     bind_err (Projection_calculate_qej self) (\<lambda>p.
     bind_err (call_float p) (\<lambda>v.
     (let self = self\<lparr>qej := Some v\<rparr> in
     bind_err (Projection_calculate_phej self) (\<lambda>p.
     bind_err (call_float p) (\<lambda>v.
     Inr (self\<lparr>phej := Some v\<rparr>)))))))))))))"

subsection \<open>The neutron-star black-hole class\<close>

record nsbh =
  mass_bh :: real
  mass_ns :: real
  mass_ratio :: real
  chi_eff :: real
  lambda_ns :: real
  nsbh_reference :: string
  risco :: "real option"
  nsbh_ejecta_velocity :: "real option"
  nsbh_ejecta_mass :: "real option"

definition kawaguchi_2016 :: string where
  "kawaguchi_2016 = ''https://ui.adsabs.harvard.edu/abs/2016ApJ...825...52K/abstract''"

text \<open>Lines 181 to 186.\<close>

definition NSBH_attrs :: "real \<Rightarrow> real \<Rightarrow> real \<Rightarrow> real \<Rightarrow> error + nsbh" where
  "NSBH_attrs mbh mns chi lam =
     bind_err (py_div mbh mns) (\<lambda>ratio.
     Inr \<lparr>mass_bh = mbh, mass_ns = mns, mass_ratio = ratio, chi_eff = chi, lambda_ns = lam,
          nsbh_reference = kawaguchi_2016, risco = None,
          nsbh_ejecta_velocity = None, nsbh_ejecta_mass = None\<rparr>)"

definition isco_radius :: "nsbh \<Rightarrow> error + real" where
  "isco_radius self =
     (let chi = chi_eff self in
      bind_err (py_pow (1 - chi * chi) (1 / 3.0)) (\<lambda>r0.
      bind_err (py_pow (1 + chi) (1 / 3.0)) (\<lambda>r1.
      bind_err (py_pow (1 - chi) (1 / 3.0)) (\<lambda>r2.
      (let z1 = 1 + r0 * (r1 + r2) in
      bind_err (py_pow (3 * chi * chi + z1 * z1) (1 / 2.0)) (\<lambda>z2.
      bind_err (py_pow ((3 - z1) * (3 + z1 + 2 * z2)) (1 / 2.0)) (\<lambda>s.
      Inr (3 + z2 - sgn chi * s))))))))"

definition NSBH_calculate_ejecta_velocity :: "nsbh \<Rightarrow> error + real" where
  "NSBH_calculate_ejecta_velocity self =
     Inr (0.015333330951369120 * mass_ratio self + 0.19066667068621043)"

definition NSBH_calculate_ejecta_mass :: "nsbh \<Rightarrow> error + real" where
  "NSBH_calculate_ejecta_mass self =
     (let a1 = -0.002269; a2 = 0.04464; a3 = 2.431; a4 = -0.4159; n1 = 1.352; n2 = 0.2497 in
      bind_err (calc_compactness_from_lambda (lambda_ns self)) (\<lambda>compactness.
      bind_err (calc_baryonic_mass (mass_ns self) compactness) (\<lambda>baryonic_mass.
      (case risco self of
         None \<Rightarrow> Inl (AttributeError ''risco'')
       | Some r \<Rightarrow>
      bind_err (py_pow (mass_ratio self) n1) (\<lambda>p1.
      bind_err (py_pow (mass_ratio self) n2) (\<lambda>p2.
      bind_err (np_div (p2 * (1 - 2 * compactness) * a2) compactness) (\<lambda>tmp2.
      bind_err (np_div (mass_ns self) baryonic_mass) (\<lambda>f.
      (let tmp1 = r * p1 * a1;
           tmp3 = (1 - f) * a3 + a4
       in Inr (baryonic_mass * max (tmp1 + tmp2 + tmp3) 0))))))))))"

definition OneComponentNSBH :: "real \<Rightarrow> real \<Rightarrow> real \<Rightarrow> real \<Rightarrow> error + nsbh" where
  "OneComponentNSBH mbh mns chi lam =
     bind_err (NSBH_attrs mbh mns chi lam) (\<lambda>self.
     bind_err (isco_radius self) (\<lambda>p.
     bind_err (call_float p) (\<lambda>v.
     (let self = self\<lparr>risco := Some v\<rparr> in
     bind_err (NSBH_calculate_ejecta_velocity self) (\<lambda>p.
     bind_err (call_float p) (\<lambda>v.
     (let self = self\<lparr>nsbh_ejecta_velocity := Some v\<rparr> in
     bind_err (NSBH_calculate_ejecta_mass self) (\<lambda>p.
     bind_err (call_float p) (\<lambda>v.
     Inr (self\<lparr>nsbh_ejecta_mass := Some v\<rparr>))))))))))"


subsection \<open>The closed forms as the specification writes them\<close>

text \<open>These four definitions follow the words of the specification, to be compared with
  the functions above.\<close>

definition spec_compactness :: "real \<Rightarrow> real" where
  "spec_compactness lam = 0.371 - 0.0391 * ln lam + 0.001056 * (ln lam)\<^sup>2"

definition spec_baryonic_mass :: "real \<Rightarrow> real \<Rightarrow> real" where
  "spec_baryonic_mass mass compactness =
     mass * (1 + 0.8857853174243745 * compactness powr 1.2082383572002926)"

definition spec_velocity :: "real \<Rightarrow> real \<Rightarrow> real \<Rightarrow> real \<Rightarrow> real \<Rightarrow> real \<Rightarrow> real \<Rightarrow> real" where
  "spec_velocity a b c m1 m2 C1 C2 =
     a * ((m1 / m2) * (1 + c * C1) + (m2 / m1) * (1 + c * C2)) + b"

text \<open>The Bardeen-Press-Teukolsky radius of the innermost stable circular orbit, in units
  of the black-hole mass: the root is subtracted for a prograde orbit and added for a
  retrograde one.\<close>

definition bpt_z1 :: "real \<Rightarrow> real" where
  "bpt_z1 chi = 1 + root 3 (1 - chi\<^sup>2) * (root 3 (1 + chi) + root 3 (1 - chi))"

definition bpt_z2 :: "real \<Rightarrow> real" where
  "bpt_z2 chi = sqrt (3 * chi\<^sup>2 + (bpt_z1 chi)\<^sup>2)"

definition bpt_isco :: "real \<Rightarrow> real" where
  "bpt_isco chi =
     (if 0 \<le> chi
      then 3 + bpt_z2 chi - sqrt ((3 - bpt_z1 chi) * (3 + bpt_z1 chi + 2 * bpt_z2 chi))
      else 3 + bpt_z2 chi + sqrt ((3 - bpt_z1 chi) * (3 + bpt_z1 chi + 2 * bpt_z2 chi)))"

section \<open>The file system and the objects shared with callers\<close>

text \<open>
  An opaque Python value (a keyword argument, a data table, a metadata entry) is named by
  its \<open>repr\<close>.
\<close>

type_synonym pyobj = string

text \<open>
  A float that is stored and read back may be \<open>nan\<close> or infinite: bilby stores \<open>nan\<close> as
  the log-evidence of a run whose sampler computes no evidence. Subtraction follows
  IEEE 754 on these values; the rounding and the overflow of a finite difference are not
  modelled.
\<close>

datatype pyfloat = Fin real | PosInf | NegInf | NaN

fun float_sub :: "pyfloat \<Rightarrow> pyfloat \<Rightarrow> pyfloat" where
  "float_sub NaN y = NaN"
| "float_sub x NaN = NaN"
| "float_sub (Fin a) (Fin b) = Fin (a - b)"
| "float_sub (Fin a) PosInf = NegInf"
| "float_sub (Fin a) NegInf = PosInf"
| "float_sub PosInf (Fin b) = PosInf"
| "float_sub NegInf (Fin b) = NegInf"
| "float_sub PosInf NegInf = PosInf"
| "float_sub NegInf PosInf = NegInf"
| "float_sub PosInf PosInf = NaN"
| "float_sub NegInf NegInf = NaN"

fun is_finite :: "pyfloat \<Rightarrow> bool" where
  "is_finite (Fin a) = True"
| "is_finite x = False"

text \<open>A result of the sampler holds the log-evidence and the posterior table.\<close>

record result =
  log_evidence :: pyfloat
  posterior :: "real list list"

datatype prior =
    Uniform real real "string option" string
  | Gaussian real real "string option" string
  | OtherPrior pyobj

type_synonym prior_dict = "string \<rightharpoonup> prior"

text \<open>
  The world a call runs in: the directories and result files on disk, the prior
  dictionaries that exist in memory (a caller and a fit share one through its reference),
  the next free reference, and the number of runs of the sampler so far.
\<close>

record world =
  dirs :: "string set"
  files :: "string \<rightharpoonup> result"
  prior_objs :: "nat \<rightharpoonup> prior_dict"
  next_ref :: nat
  sampler_calls :: nat

definition deref :: "world \<Rightarrow> nat \<Rightarrow> prior_dict" where
  "deref w p = (case prior_objs w p of None \<Rightarrow> Map.empty | Some d \<Rightarrow> d)"

definition strip_slash :: "string \<Rightarrow> string" where
  "strip_slash p = rev (dropWhile (\<lambda>c. c = CHR ''/'') (rev p))"

text \<open>A path and the directories above it, each without a trailing slash.\<close>

definition path_prefixes :: "string \<Rightarrow> string list" where
  "path_prefixes p =
     (let q = strip_slash p
      in map strip_slash (map (\<lambda>i. take i q) (filter (\<lambda>i. q ! i = CHR ''/'') [1..<length q]))
         @ [q])"

text \<open>\<open>Path(p).mkdir(parents=True, exist_ok=True)\<close> and \<open>os.makedirs(p)\<close> where \<open>p\<close> does
  not exist: the directory and the missing ones above it are created. Failures of the
  operating system (permissions, a file in the way) are not modelled.\<close>

definition mkdir_parents :: "string \<Rightarrow> world \<Rightarrow> world" where
  "mkdir_parents p w = w\<lparr>dirs := dirs w \<union> set (path_prefixes p)\<rparr>"

definition os_path_exists :: "world \<Rightarrow> string \<Rightarrow> bool" where
  "os_path_exists w p = (strip_slash p \<in> dirs w \<or> p \<in> dom (files w))"

section \<open>The fit orchestrator (redback/sampler.py)\<close>

text \<open>
  A model function is known by its \<open>__name__\<close> and by the text \<open>str\<close> gives for it; the
  argument \<open>model\<close> of \<open>fit_model\<close> is such a function or the name of one.
\<close>

record model_fn =
  fn_name :: string
  fn_str :: string

datatype model_arg = ModelName string | ModelFn model_fn

text \<open>
  The class of a transient as the \<open>isinstance\<close> chain of \<open>fit_model\<close> sees it: the first of
  the five classes the object is an instance of, or none of them. The fields of a
  transient carry the prefix \<open>tr_\<close>; \<open>tr_class_name\<close> is \<open>__class__.__name__\<close>, \<open>tr_dict\<close> is
  \<open>__dict__\<close> and \<open>tr_filtered_data\<close> is what \<open>get_filtered_data()\<close> returns.
\<close>

datatype transient_class = Afterglow | Kilonova | PromptTimeSeries | Supernova | TDE | Unrecognized

record transient =
  tr_class :: transient_class
  tr_class_name :: string
  tr_name :: string
  tr_photon_index :: real
  tr_flux_density_data :: bool
  tr_photometry_data :: bool
  tr_x :: "real list"
  tr_x_err :: "real list"
  tr_y :: "real list"
  tr_y_err :: "real list"
  tr_filtered_data :: "real list \<times> real list \<times> real list \<times> real list"
  tr_bin_size :: real
  tr_dict :: "(string \<times> pyobj) list"

datatype likelihood =
    GaussianLikelihood "real list" "real list" "real list" model_fn pyobj
  | PoissonLikelihood "real list" "real list" real model_fn bool pyobj
  | GivenLikelihood pyobj

text \<open>The keyword arguments of \<open>bilby.run_sampler\<close>; \<open>sa_priors\<close> is a reference.\<close>

record sampler_args =
  sa_likelihood :: likelihood
  sa_priors :: nat
  sa_label :: string
  sa_sampler :: string
  sa_nlive :: int
  sa_outdir :: string
  sa_plot :: bool
  sa_use_ratio :: bool
  sa_walks :: int
  sa_resume :: bool
  sa_maxmcmc :: int
  sa_result_class :: string
  sa_meta_data :: "string \<rightharpoonup> pyobj"
  sa_nthreads :: int
  sa_save_bounds :: bool
  sa_nsteps :: int
  sa_nwalkers :: int
  sa_save :: string
  sa_kwargs :: "(string \<times> pyobj) list"

text \<open>
  What \<open>sampler.py\<close> imports and does not define: the registry of models, bilby's reader of
  a prior file, bilby's sampler, and the directory of the module.
\<close>

record env =
  all_models_dict :: "string \<rightharpoonup> model_fn"
  PriorDict_from_file :: "string \<Rightarrow> error + prior_dict"
  run_sampler :: "sampler_args \<Rightarrow> world \<Rightarrow> (error + result) \<times> world"
  dirname :: string

definition KeyError :: "string \<Rightarrow> error" where
  "KeyError k = Err ''KeyError'' k"

definition ValueError :: "string \<Rightarrow> error" where
  "ValueError msg = Err ''ValueError'' msg"

definition duplicate_keyword :: "string \<Rightarrow> error" where
  "duplicate_keyword k = Err ''TypeError'' (''got multiple values for keyword argument '' @ k)"

definition latex_alpha_1 :: string where
  "latex_alpha_1 = ''$'' @ [char_of (92::nat)] @ ''alpha_{1}$''"

definition lower :: "string \<Rightarrow> string" where
  "lower s = map (\<lambda>c. let n = (of_char c :: nat)
                      in if 65 \<le> n \<and> n \<le> 90 then char_of (n + 32) else c) s"

definition lstrip_underscore :: "string \<Rightarrow> string" where
  "lstrip_underscore k = dropWhile (\<lambda>c. c = CHR ''_'') k"

definition repr_bool :: "bool \<Rightarrow> pyobj" where
  "repr_bool b = (if b then ''True'' else ''False'')"

text \<open>\<open>meta_data\<close>: the model and the transient type, then \<open>__dict__\<close> with the leading
  underscores of its keys stripped, then \<open>model_kwargs\<close>; a later entry replaces an
  earlier one with the same key.\<close>

definition make_meta_data :: "string \<Rightarrow> string \<Rightarrow> (string \<times> pyobj) list \<Rightarrow> pyobj
    \<Rightarrow> (string \<rightharpoonup> pyobj)" where
  "make_meta_data model_name transient_type items model_kwargs =
     (fold (\<lambda>(k, v) m. m(lstrip_underscore k \<mapsto> v)) items
        [''model'' \<mapsto> model_name, ''transient_type'' \<mapsto> transient_type])
       (''model_kwargs'' \<mapsto> model_kwargs)"

text \<open>The names \<open>bilby.run_sampler\<close> is called with explicitly; a key of \<open>**kwargs\<close> that
  repeats one of them makes the call raise TypeError.\<close>

definition explicit_keywords :: "string list" where
  "explicit_keywords = [''likelihood'', ''priors'', ''label'', ''sampler'', ''nlive'', ''outdir'',
     ''plot'', ''use_ratio'', ''walks'', ''resume'', ''maxmcmc'', ''result_class'', ''meta_data'',
     ''nthreads'', ''save_bounds'', ''nsteps'', ''nwalkers'', ''save'']"

definition call_run_sampler :: "env \<Rightarrow> sampler_args \<Rightarrow> world \<Rightarrow> (error + result option) \<times> world" where
  "call_run_sampler e args w =
     (case filter (\<lambda>k. k \<in> set explicit_keywords) (map fst (sa_kwargs args)) of
        k # ks \<Rightarrow> (Inl (duplicate_keyword k), w)
      | [] \<Rightarrow>
        (case run_sampler e args (w\<lparr>sampler_calls := Suc (sampler_calls w)\<rparr>) of
           (Inl err, w') \<Rightarrow> (Inl err, w')
         | (Inr r, w') \<Rightarrow> (Inr (Some r), w')))"

text \<open>Lines 82 to 88: with \<open>use_photon_index_prior\<close> the entry \<open>alpha_1\<close> of the prior
  dictionary is replaced, in the dictionary the caller passed.\<close>

definition photon_index_prior :: "transient \<Rightarrow> prior" where
  "photon_index_prior t =
     (if tr_photon_index t < 0
      then Uniform (-10) (-0.5) (Some ''alpha_1'') latex_alpha_1
      else Gaussian (- (tr_photon_index t + 1)) 0.1 None latex_alpha_1)"

definition set_alpha_1 :: "bool \<Rightarrow> transient \<Rightarrow> nat \<Rightarrow> world \<Rightarrow> world" where
  "set_alpha_1 use_photon_index_prior t p w =
     (if use_photon_index_prior
      then w\<lparr>prior_objs := (prior_objs w)(p \<mapsto> (deref w p)(''alpha_1'' \<mapsto> photon_index_prior t))\<rparr>
      else w)"

definition make_label :: "string \<Rightarrow> bool \<Rightarrow> string" where
  "make_label data_mode use_photon_index_prior =
     (if use_photon_index_prior then data_mode @ ''_photon_index'' else data_mode)"

definition fit_data :: "transient \<Rightarrow> real list \<times> real list \<times> real list \<times> real list" where
  "fit_data t =
     (if tr_flux_density_data t \<or> tr_photometry_data t
      then tr_filtered_data t
      else (tr_x t, tr_x_err t, tr_y t, tr_y_err t))"

definition gaussian_or_given :: "(string \<times> pyobj) list \<Rightarrow> transient \<Rightarrow> model_fn \<Rightarrow> pyobj
    \<Rightarrow> likelihood" where
  "gaussian_or_given kwargs t model model_kwargs =
     (case fit_data t of (x, x_err, y, y_err) \<Rightarrow>
        (case map_of kwargs ''likelihood'' of
           None \<Rightarrow> GaussianLikelihood x y y_err model model_kwargs
         | Some l \<Rightarrow> GivenLikelihood l))"

definition fit_grb :: "env \<Rightarrow> string \<Rightarrow> transient \<Rightarrow> model_fn \<Rightarrow> string \<Rightarrow> string \<Rightarrow> int \<Rightarrow> nat
    \<Rightarrow> int \<Rightarrow> bool \<Rightarrow> string \<Rightarrow> bool \<Rightarrow> string \<Rightarrow> pyobj \<Rightarrow> (string \<times> pyobj) list \<Rightarrow> world
    \<Rightarrow> (error + result option) \<times> world" where
  "fit_grb e name t model outdir sampler nlive prior walks use_photon_index_prior data_mode
       resume save_format model_kwargs kwargs w =
     (let w = set_alpha_1 use_photon_index_prior t prior w;
          outdir = outdir @ ''/GRB'' @ name @ ''/'' @ fn_name model;
          w = mkdir_parents outdir w;
          label = make_label data_mode use_photon_index_prior;
          likelihood = gaussian_or_given kwargs t model model_kwargs;
          meta_data = make_meta_data (fn_name model) (lower (tr_class_name t)) (tr_dict t)
                        model_kwargs
      in call_run_sampler e
           \<lparr>sa_likelihood = likelihood, sa_priors = prior, sa_label = label,
            sa_sampler = sampler, sa_nlive = nlive, sa_outdir = outdir, sa_plot = True,
            sa_use_ratio = False, sa_walks = walks, sa_resume = resume,
            sa_maxmcmc = 10 * walks, sa_result_class = ''RedbackResult'',
            sa_meta_data = meta_data, sa_nthreads = 4, sa_save_bounds = False,
            sa_nsteps = nlive, sa_nwalkers = walks, sa_save = save_format,
            sa_kwargs = kwargs\<rparr> w)"

definition fit_kilonova :: "env \<Rightarrow> string \<Rightarrow> transient \<Rightarrow> model_fn \<Rightarrow> string \<Rightarrow> string \<Rightarrow> int
    \<Rightarrow> nat \<Rightarrow> int \<Rightarrow> bool \<Rightarrow> string \<Rightarrow> bool \<Rightarrow> string \<Rightarrow> pyobj \<Rightarrow> (string \<times> pyobj) list
    \<Rightarrow> world \<Rightarrow> (error + result option) \<times> world" where
  "fit_kilonova e name t model outdir sampler nlive prior walks use_photon_index_prior
       data_mode resume save_format model_kwargs kwargs w =
     (let outdir = outdir @ ''/'' @ name @ ''/'' @ fn_name model;
          w = mkdir_parents outdir w;
          label = make_label data_mode use_photon_index_prior;
          likelihood = gaussian_or_given kwargs t model model_kwargs;
          meta_data = make_meta_data (fn_name model) (lower (tr_class_name t)) (tr_dict t)
                        model_kwargs
      in call_run_sampler e
           \<lparr>sa_likelihood = likelihood, sa_priors = prior, sa_label = label,
            sa_sampler = sampler, sa_nlive = nlive, sa_outdir = outdir, sa_plot = True,
            sa_use_ratio = False, sa_walks = walks, sa_resume = resume,
            sa_maxmcmc = 10 * walks, sa_result_class = ''RedbackResult'',
            sa_meta_data = meta_data, sa_nthreads = 4, sa_save_bounds = False,
            sa_nsteps = nlive, sa_nwalkers = walks, sa_save = save_format,
            sa_kwargs = kwargs\<rparr> w)"

definition fit_prompt :: "env \<Rightarrow> string \<Rightarrow> transient \<Rightarrow> model_fn \<Rightarrow> string \<Rightarrow> bool \<Rightarrow> string
    \<Rightarrow> int \<Rightarrow> nat \<Rightarrow> int \<Rightarrow> bool \<Rightarrow> string \<Rightarrow> bool \<Rightarrow> string \<Rightarrow> pyobj
    \<Rightarrow> (string \<times> pyobj) list \<Rightarrow> world \<Rightarrow> (error + result option) \<times> world" where
  "fit_prompt e name t model outdir integrated_rate_function sampler nlive prior walks
       use_photon_index_prior data_mode resume save_format model_kwargs kwargs w =
     (let outdir = outdir @ ''/GRB'' @ name @ ''/'' @ fn_name model;
          w = mkdir_parents outdir w;
          label = make_label data_mode use_photon_index_prior;
          likelihood = PoissonLikelihood (tr_x t) (tr_y t) (tr_bin_size t) model
                         integrated_rate_function model_kwargs;
          meta_data = make_meta_data (fn_name model) ''prompt'' (tr_dict t) model_kwargs
      in call_run_sampler e
           \<lparr>sa_likelihood = likelihood, sa_priors = prior, sa_label = label,
            sa_sampler = sampler, sa_nlive = nlive, sa_outdir = outdir, sa_plot = True,
            sa_use_ratio = False, sa_walks = walks, sa_resume = resume,
            sa_maxmcmc = 10 * walks, sa_result_class = ''RedbackResult'',
            sa_meta_data = meta_data, sa_nthreads = 4, sa_save_bounds = False,
            sa_nsteps = nlive, sa_nwalkers = walks, sa_save = save_format,
            sa_kwargs = kwargs\<rparr> w)"

text \<open>\<open>_fit_supernova\<close> and \<open>_fit_tde\<close> are \<open>pass\<close>: they return \<open>None\<close>.\<close>

definition fit_supernova :: "world \<Rightarrow> (error + result option) \<times> world" where
  "fit_supernova w = (Inr None, w)"

definition fit_tde :: "world \<Rightarrow> (error + result option) \<times> world" where
  "fit_tde w = (Inr None, w)"

text \<open>Lines 43 to 47: the model is looked up when it is given by name, and a missing prior
  is read from the file named after the text of the model; the new dictionary gets a
  fresh reference.\<close>

definition resolve_model :: "env \<Rightarrow> model_arg \<Rightarrow> error + model_fn" where
  "resolve_model e model =
     (case model of
        ModelFn f \<Rightarrow> Inr f
      | ModelName n \<Rightarrow> (case all_models_dict e n of None \<Rightarrow> Inl (KeyError n) | Some f \<Rightarrow> Inr f))"

definition resolve_prior :: "env \<Rightarrow> model_fn \<Rightarrow> nat option \<Rightarrow> world \<Rightarrow> error + nat \<times> world" where
  "resolve_prior e model prior w =
     (case prior of
        Some p \<Rightarrow> Inr (p, w)
      | None \<Rightarrow>
        (case PriorDict_from_file e (dirname e @ ''/Priors/'' @ fn_str model @ ''.prior'') of
           Inl err \<Rightarrow> Inl err
         | Inr d \<Rightarrow> Inr (next_ref w,
               w\<lparr>prior_objs := (prior_objs w)(next_ref w \<mapsto> d), next_ref := Suc (next_ref w)\<rparr>)))"

definition fit_model :: "env \<Rightarrow> string \<Rightarrow> transient \<Rightarrow> model_arg \<Rightarrow> string \<Rightarrow> string \<Rightarrow> int
    \<Rightarrow> nat option \<Rightarrow> int \<Rightarrow> bool \<Rightarrow> bool \<Rightarrow> string \<Rightarrow> string \<Rightarrow> bool \<Rightarrow> string \<Rightarrow> pyobj
    \<Rightarrow> (string \<times> pyobj) list \<Rightarrow> world \<Rightarrow> (error + result option) \<times> world" where
  "fit_model e name t model outdir sampler nlive prior walks truncate_arg use_photon_index_prior
       truncate_method data_mode resume save_format model_kwargs kwargs w =
     (case resolve_model e model of
        Inl err \<Rightarrow> (Inl err, w)
      | Inr model \<Rightarrow>
        (case resolve_prior e model prior w of
           Inl err \<Rightarrow> (Inl err, w)
         | Inr (prior, w) \<Rightarrow>
           (let kwargs' = [(''truncate'', repr_bool truncate_arg), (''truncate_method'', truncate_method)]
                          @ kwargs
            in case tr_class t of
                 Afterglow \<Rightarrow>
                   fit_grb e name t model outdir sampler nlive prior walks
                     use_photon_index_prior data_mode resume save_format model_kwargs kwargs' w
               | Kilonova \<Rightarrow>
                   fit_kilonova e name t model outdir sampler nlive prior walks
                     use_photon_index_prior data_mode resume save_format model_kwargs kwargs' w
               | PromptTimeSeries \<Rightarrow>
                   fit_prompt e name t model outdir True sampler nlive prior walks
                     use_photon_index_prior data_mode resume save_format model_kwargs kwargs w
               | Supernova \<Rightarrow> fit_supernova w
               | TDE \<Rightarrow> fit_tde w
               | Unrecognized \<Rightarrow>
                   (Inl (ValueError (''Source type '' @ tr_class_name t @ '' not known'')), w))))"

section \<open>Model comparison (grb\_bilby/analysis/Analysis.py)\<close>

text \<open>
  What \<open>Analysis.py\<close> imports and does not define: bilby's reader of a result file and the
  loader of the data of a burst (\<open>tools.SGRB\<close> followed by \<open>load_and_truncate_data\<close>), with
  the directory of the module. The reader sees the result files of the world. The data
  files are not written by this module, so the loader is a function of its arguments.
\<close>

record analysis_env =
  read_in_result :: "string \<Rightarrow> (string \<rightharpoonup> result) \<Rightarrow> error + result"
  SGRB_load_and_truncate :: "string \<Rightarrow> string \<Rightarrow> bool \<Rightarrow> error + pyobj"
  analysis_dirname :: string

definition find_path :: "analysis_env \<Rightarrow> string \<Rightarrow> string" where
  "find_path e path =
     (if path = ''default'' then analysis_dirname e @ ''/'' @ ''../data/GRBData'' else path)"

definition load_data :: "analysis_env \<Rightarrow> string \<Rightarrow> string \<Rightarrow> bool \<Rightarrow> error + pyobj" where
  "load_data e GRB path truncate_arg = SGRB_load_and_truncate e GRB (find_path e path) truncate_arg"

definition result_path :: "string \<Rightarrow> string \<Rightarrow> string \<Rightarrow> string" where
  "result_path path GRB model = path @ ''/GRB'' @ GRB @ ''/'' @ model @ ''/''"

definition result_filename :: "string \<Rightarrow> string \<Rightarrow> string \<Rightarrow> bool \<Rightarrow> string" where
  "result_filename path GRB model use_photon_index_prior =
     (if use_photon_index_prior
      then result_path path GRB model @ ''photon_index_result.json''
      else result_path path GRB model @ ''result_result.json'')"

definition read_result :: "analysis_env \<Rightarrow> string \<Rightarrow> string \<Rightarrow> string \<Rightarrow> bool \<Rightarrow> bool \<Rightarrow> world
    \<Rightarrow> (error + result \<times> pyobj) \<times> world" where
  "read_result e model GRB path truncate_arg use_photon_index_prior w =
     (let w = (if \<not> os_path_exists w (result_path path GRB model)
               then mkdir_parents (result_path path GRB model) w else w)
      in case read_in_result e (result_filename path GRB model use_photon_index_prior) (files w) of
           Inl err \<Rightarrow> (Inl err, w)
         | Inr result \<Rightarrow>
           (case load_data e GRB path truncate_arg of
              Inl err \<Rightarrow> (Inl err, w)
            | Inr data \<Rightarrow> (Inr (result, data), w)))"

definition calculate_BF :: "analysis_env \<Rightarrow> string \<Rightarrow> string \<Rightarrow> string \<Rightarrow> string \<Rightarrow> bool \<Rightarrow> world
    \<Rightarrow> (error + pyfloat) \<times> world" where
  "calculate_BF e model1 model2 GRB path use_photon_index_prior w =
     (case read_result e model1 GRB path True use_photon_index_prior w of
        (Inl err, w) \<Rightarrow> (Inl err, w)
      | (Inr (model1, data), w) \<Rightarrow>
        (case read_result e model2 GRB path True use_photon_index_prior w of
           (Inl err, w) \<Rightarrow> (Inl err, w)
         | (Inr (model2, data), w) \<Rightarrow> (Inr (float_sub (log_evidence model1) (log_evidence model2)), w)))"

text \<open>
  bilby's reader on a concrete store, to run the comparison. The library is not part of
  this repository; \<open>Result.from_json\<close> returns the stored result when the file exists and
  otherwise executes \<open>raise IOError("No result '{}' found".format(filename))\<close>, and in
  Python 3 \<open>IOError\<close> is the class \<open>OSError\<close>.
\<close>

definition no_result_message :: "string \<Rightarrow> string" where
  "no_result_message filename =
     ''No result '' @ [char_of (39::nat)] @ filename @ [char_of (39::nat)] @ '' found''"

definition bilby_read_in_result :: "string \<Rightarrow> (string \<rightharpoonup> result) \<Rightarrow> error + result" where
  "bilby_read_in_result filename fs =
     (case fs filename of
        None \<Rightarrow> Inl (Err ''OSError'' (no_result_message filename))
      | Some r \<Rightarrow> Inr r)"

section \<open>Concrete inputs\<close>

text \<open>A model, a sampler that returns at once, two transients, and a store with the
  results of three models for the burst 140903A: \<open>a\<close> and \<open>b\<close> with a finite log-evidence
  and \<open>n\<close> with the log-evidence \<open>nan\<close>. There is no result of a model \<open>c\<close>. The second
  environment has a loader that fails, as when the data of the burst are not on disk.\<close>

definition example_model :: model_fn where
  "example_model = \<lparr>fn_name = ''evolving_magnetar'', fn_str = ''<function evolving_magnetar>''\<rparr>"

definition example_result :: "real \<Rightarrow> result" where
  "example_result z = \<lparr>log_evidence = Fin z, posterior = []\<rparr>"

definition example_env :: env where
  "example_env =
     \<lparr>all_models_dict = [''evolving_magnetar'' \<mapsto> example_model],
      PriorDict_from_file = (\<lambda>filename. Inr Map.empty),
      run_sampler = (\<lambda>args w. (Inr (example_result 0), w)),
      dirname = ''redback''\<rparr>"

definition example_transient :: "transient_class \<Rightarrow> string \<Rightarrow> real \<Rightarrow> transient" where
  "example_transient cls cls_name phi =
     \<lparr>tr_class = cls, tr_class_name = cls_name, tr_name = ''140903A'', tr_photon_index = phi,
      tr_flux_density_data = False, tr_photometry_data = False,
      tr_x = [1, 2], tr_x_err = [0, 0], tr_y = [3, 4], tr_y_err = [1, 1],
      tr_filtered_data = ([], [], [], []), tr_bin_size = 1, tr_dict = []\<rparr>"

definition example_world :: world where
  "example_world =
     \<lparr>dirs = {}, files = Map.empty, prior_objs = [0 \<mapsto> Map.empty], next_ref = 1,
      sampler_calls = 0\<rparr>"

definition example_analysis_env :: analysis_env where
  "example_analysis_env =
     \<lparr>read_in_result = bilby_read_in_result,
      SGRB_load_and_truncate = (\<lambda>GRB path truncate_arg. Inr ''data''),
      analysis_dirname = ''analysis''\<rparr>"

definition example_failing_loader_env :: analysis_env where
  "example_failing_loader_env =
     \<lparr>read_in_result = bilby_read_in_result,
      SGRB_load_and_truncate = (\<lambda>GRB path truncate_arg. Inl (Err ''OSError'' ''no data'')),
      analysis_dirname = ''analysis''\<rparr>"

definition example_store :: world where
  "example_store =
     \<lparr>dirs = {''.'', ''./GRB140903A'', ''./GRB140903A/a'', ''./GRB140903A/b'',
              ''./GRB140903A/n''},
      files = [''./GRB140903A/a/result_result.json'' \<mapsto> example_result (-10),
               ''./GRB140903A/b/result_result.json'' \<mapsto> example_result (-12),
               ''./GRB140903A/n/result_result.json'' \<mapsto> \<lparr>log_evidence = NaN, posterior = []\<rparr>],
      prior_objs = Map.empty, next_ref = 0, sampler_calls = 0\<rparr>"

section \<open>Properties of the ejecta relations\<close>

subsection \<open>Float arithmetic on its domain\<close>

lemma bind_err_Inr: "bind_err (Inr v) f = f v"
  by (simp add: bind_err_def)

lemma bind_err_Inl: "bind_err (Inl e) f = Inl e"
  by (simp add: bind_err_def)

lemma py_pow_pos: "0 < x \<Longrightarrow> y \<noteq> 0 \<Longrightarrow> py_pow x y = Inr (x powr y)"
  by (simp add: py_pow_def)

lemma np_pow_pos: "0 < x \<Longrightarrow> y \<noteq> 0 \<Longrightarrow> np_pow x y = Inr (x powr y)"
  by (simp add: np_pow_def py_pow_def)

lemma py_pow_third: "0 \<le> x \<Longrightarrow> py_pow x (1 / 3) = Inr (root 3 x)"
  by (cases "x = 0") (simp_all add: py_pow_def root_powr_inverse)

lemma py_pow_half: "0 \<le> x \<Longrightarrow> py_pow x (1 / 2) = Inr (sqrt x)"
  by (cases "x = 0") (simp_all add: py_pow_def powr_half_sqrt)

subsection \<open>The helpers\<close>

lemma compactness_pos: "0 < 0.371 - 0.0391 * x + 0.001056 * x\<^sup>2" for x :: real
proof -
  have "0.371 - 0.0391 * x + 0.001056 * x\<^sup>2
        = 0.001056 * (x - 0.0391 / 0.002112)\<^sup>2 + (0.371 - 0.0391\<^sup>2 / 0.004224)"
    by (simp add: power2_eq_square algebra_simps)
  moreover have "0 \<le> 0.001056 * (x - 0.0391 / 0.002112)\<^sup>2"
    by simp
  moreover have "(0::real) < 0.371 - 0.0391\<^sup>2 / 0.004224"
    by (simp add: power2_eq_square)
  ultimately show ?thesis
    by linarith
qed

lemma compactness_eq:
  "0 < lam \<Longrightarrow> calc_compactness_from_lambda lam = Inr (spec_compactness lam)"
  by (simp add: calc_compactness_from_lambda_def np_log_def bind_err_Inr spec_compactness_def)

lemma spec_compactness_pos: "0 < spec_compactness lam"
  unfolding spec_compactness_def by (rule compactness_pos)

lemma baryonic_eq:
  "0 < c \<Longrightarrow> calc_baryonic_mass m c = Inr (spec_baryonic_mass m c)"
  by (simp add: calc_baryonic_mass_def np_pow_pos bind_err_Inr spec_baryonic_mass_def)

lemma spec_baryonic_mass_pos: "0 < m \<Longrightarrow> 0 < spec_baryonic_mass m c"
proof -
  assume m: "0 < m"
  have "0 \<le> 0.8857853174243745 * c powr 1.2082383572002926"
    by simp
  then have "0 < 1 + 0.8857853174243745 * c powr 1.2082383572002926"
    by linarith
  then show ?thesis
    unfolding spec_baryonic_mass_def using m by (rule mult_pos_pos [rotated])
qed

lemma calc_vrho_eq:
  assumes "0 < lam1" "0 < lam2" "m1 \<noteq> 0" "m2 \<noteq> 0"
  shows "calc_vrho m1 m2 lam1 lam2
         = Inr (spec_velocity (-0.219479) 0.444836 (-2.67385) m1 m2
                  (spec_compactness lam1) (spec_compactness lam2))"
  using assms
  by (simp add: calc_vrho_def compactness_eq py_div_def bind_err_Inr Let_def spec_velocity_def)

lemma calc_vz_eq:
  assumes "0 < lam1" "0 < lam2" "m1 \<noteq> 0" "m2 \<noteq> 0"
  shows "calc_vz m1 m2 lam1 lam2
         = Inr (spec_velocity (-0.315585) 0.63808 (-1.00757) m1 m2
                  (spec_compactness lam1) (spec_compactness lam2))"
  using assms
  by (simp add: calc_vz_def compactness_eq py_div_def bind_err_Inr Let_def spec_velocity_def)

text \<open>
  C8. On their domain (tidal deformabilities and compactness positive, masses non-zero) the
  helpers return exactly the closed forms of the specification: the compactness fit, the
  baryonic mass, and the two velocities with their constants. Floats are read as reals.
\<close>

theorem helper_transforms_closed_forms:
  assumes "0 < lam1" "0 < lam2" "m1 \<noteq> 0" "m2 \<noteq> 0" "0 < c"
  shows "calc_compactness_from_lambda lam1 = Inr (spec_compactness lam1)
       \<and> calc_baryonic_mass m1 c = Inr (spec_baryonic_mass m1 c)
       \<and> calc_vrho m1 m2 lam1 lam2
           = Inr (spec_velocity (-0.219479) 0.444836 (-2.67385) m1 m2
                    (spec_compactness lam1) (spec_compactness lam2))
       \<and> calc_vz m1 m2 lam1 lam2
           = Inr (spec_velocity (-0.315585) 0.63808 (-1.00757) m1 m2
                    (spec_compactness lam1) (spec_compactness lam2))"
  using assms by (simp add: compactness_eq baryonic_eq calc_vrho_eq calc_vz_eq)

theorem helper_transforms_closed_forms_witness:
  "(0::real) < 400 \<and> (0::real) < 450 \<and> (1.4::real) \<noteq> 0 \<and> (1.3::real) \<noteq> 0 \<and> (0::real) < 0.15
   \<and> calc_compactness_from_lambda 400 = Inr (spec_compactness 400)
   \<and> calc_baryonic_mass 1.4 0.15 = Inr (spec_baryonic_mass 1.4 0.15)
   \<and> calc_vrho 1.4 1.3 400 450
       = Inr (spec_velocity (-0.219479) 0.444836 (-2.67385) 1.4 1.3
                (spec_compactness 400) (spec_compactness 450))
   \<and> calc_vz 1.4 1.3 400 450
       = Inr (spec_velocity (-0.315585) 0.63808 (-1.00757) 1.4 1.3
                (spec_compactness 400) (spec_compactness 450))"
  using helper_transforms_closed_forms [of 400 450 "1.4" "1.3" "0.15"] by simp

subsection \<open>The radius of the innermost stable circular orbit\<close>

lemma cube_sum_bound:
  fixes a b :: real
  assumes "0 \<le> a" "0 \<le> b"
  shows "a * b * (a + b) \<le> a ^ 3 + b ^ 3"
proof -
  have "a ^ 3 + b ^ 3 - a * b * (a + b) = (a + b) * (a - b)\<^sup>2"
    by (simp add: power2_eq_square power3_eq_cube algebra_simps)
  moreover have "0 \<le> (a + b) * (a - b)\<^sup>2"
    using assms by simp
  ultimately show ?thesis
    by linarith
qed

lemma bpt_z1_bounds:
  assumes "-1 \<le> chi" "chi \<le> 1"
  shows "1 \<le> bpt_z1 chi" and "bpt_z1 chi \<le> 3"
proof -
  let ?a = "root 3 (1 + chi)" and ?b = "root 3 (1 - chi)"
  have a0: "0 \<le> ?a" and b0: "0 \<le> ?b"
    using assms by simp_all
  have a3: "?a ^ 3 = 1 + chi"
    using assms by simp
  have b3: "?b ^ 3 = 1 - chi"
    using assms by simp
  have "1 - chi\<^sup>2 = (1 + chi) * (1 - chi)"
    by (simp add: power2_eq_square algebra_simps)
  then have ab: "root 3 (1 - chi\<^sup>2) = ?a * ?b"
    by (simp add: real_root_mult)
  have z: "bpt_z1 chi = 1 + ?a * ?b * (?a + ?b)"
    by (simp add: bpt_z1_def ab)
  have "0 \<le> ?a * ?b * (?a + ?b)"
    using a0 b0 by simp
  then show "1 \<le> bpt_z1 chi"
    using z by linarith
  have "?a * ?b * (?a + ?b) \<le> ?a ^ 3 + ?b ^ 3"
    using a0 b0 by (rule cube_sum_bound)
  then show "bpt_z1 chi \<le> 3"
    using z a3 b3 by linarith
qed

lemma isco_radius_bpt:
  assumes "-1 \<le> chi_eff self" "chi_eff self \<le> 1"
  shows "isco_radius self = Inr (bpt_isco (chi_eff self))"
proof -
  let ?chi = "chi_eff self"
  have c2: "0 \<le> 1 - ?chi * ?chi"
  proof -
    have "0 \<le> (1 + ?chi) * (1 - ?chi)"
      using assms by simp
    then show ?thesis
      by (simp add: algebra_simps)
  qed
  have r0: "py_pow (1 - ?chi * ?chi) (1 / 3) = Inr (root 3 (1 - ?chi\<^sup>2))"
    using c2 by (simp add: py_pow_third power2_eq_square)
  have r1: "py_pow (1 + ?chi) (1 / 3) = Inr (root 3 (1 + ?chi))"
    using assms by (simp add: py_pow_third)
  have r2: "py_pow (1 - ?chi) (1 / 3) = Inr (root 3 (1 - ?chi))"
    using assms by (simp add: py_pow_third)
  have z1b: "1 \<le> bpt_z1 ?chi" "bpt_z1 ?chi \<le> 3"
    using assms by (rule bpt_z1_bounds)+
  have z2: "py_pow (3 * ?chi * ?chi + bpt_z1 ?chi * bpt_z1 ?chi) (1 / 2) = Inr (bpt_z2 ?chi)"
    by (simp add: py_pow_half bpt_z2_def power2_eq_square algebra_simps)
  have third: "(1::real) / 3.0 = 1 / 3" and half: "(1::real) / 2.0 = 1 / 2"
    by simp_all
  have z2nn: "0 \<le> bpt_z2 ?chi"
    by (simp add: bpt_z2_def)
  have rad: "0 \<le> (3 - bpt_z1 ?chi) * (3 + bpt_z1 ?chi + 2 * bpt_z2 ?chi)"
    using z1b z2nn by (intro mult_nonneg_nonneg) linarith+
  have s: "py_pow ((3 - bpt_z1 ?chi) * (3 + bpt_z1 ?chi + 2 * bpt_z2 ?chi)) (1 / 2)
            = Inr (sqrt ((3 - bpt_z1 ?chi) * (3 + bpt_z1 ?chi + 2 * bpt_z2 ?chi)))"
    using rad by (rule py_pow_half)
  have unfold: "isco_radius self
      = Inr (3 + bpt_z2 ?chi
             - sgn ?chi * sqrt ((3 - bpt_z1 ?chi) * (3 + bpt_z1 ?chi + 2 * bpt_z2 ?chi)))"
    apply (simp only: isco_radius_def Let_def third half r0 r1 r2 bind_err_Inr)
    apply (simp only: bpt_z1_def [symmetric])
    apply (simp only: z2 bind_err_Inr s)
    done
  show ?thesis
  proof (cases "?chi = 0")
    case True
    have "bpt_z1 0 = 3"
      by (simp add: bpt_z1_def)
    then show ?thesis
      using True unfold by (simp add: bpt_isco_def)
  next
    case False
    then show ?thesis
      using unfold by (simp add: bpt_isco_def sgn_real_def)
  qed
qed

lemma bpt_isco_0: "bpt_isco 0 = 6"
  by (simp add: bpt_isco_def bpt_z1_def bpt_z2_def)

text \<open>
  C9. For an effective spin between -1 and 1 the property \<open>isco_radius\<close> returns the
  Bardeen-Press-Teukolsky radius, with the root subtracted for a positive spin and added for
  a negative one, and for a spin of 0 it returns exactly 6.
\<close>

theorem isco_radius_bardeen_press_teukolsky:
  assumes "-1 \<le> chi" "chi \<le> 1"
  shows "isco_radius (self\<lparr>chi_eff := chi\<rparr>) = Inr (bpt_isco chi)
       \<and> isco_radius (self\<lparr>chi_eff := 0\<rparr>) = Inr 6"
proof -
  have "isco_radius (self\<lparr>chi_eff := chi\<rparr>) = Inr (bpt_isco chi)"
    using isco_radius_bpt [of "self\<lparr>chi_eff := chi\<rparr>"] assms by simp
  moreover have "isco_radius (self\<lparr>chi_eff := 0\<rparr>) = Inr 6"
    using isco_radius_bpt [of "self\<lparr>chi_eff := 0\<rparr>"] by (simp add: bpt_isco_0)
  ultimately show ?thesis
    by simp
qed

theorem isco_radius_bardeen_press_teukolsky_witness:
  "(-1::real) \<le> 1 / 2 \<and> (1 / 2 :: real) \<le> 1
   \<and> isco_radius \<lparr>mass_bh = 5, mass_ns = 1.4, mass_ratio = 5 / 1.4, chi_eff = 1 / 2,
        lambda_ns = 400, nsbh_reference = kawaguchi_2016, risco = None,
        nsbh_ejecta_velocity = None, nsbh_ejecta_mass = None\<rparr> = Inr (bpt_isco (1 / 2))
   \<and> isco_radius \<lparr>mass_bh = 5, mass_ns = 1.4, mass_ratio = 5 / 1.4, chi_eff = 0,
        lambda_ns = 400, nsbh_reference = kawaguchi_2016, risco = None,
        nsbh_ejecta_velocity = None, nsbh_ejecta_mass = None\<rparr> = Inr 6"
  using isco_radius_bardeen_press_teukolsky [of "1 / 2"
      "\<lparr>mass_bh = 5, mass_ns = 1.4, mass_ratio = 5 / 1.4, chi_eff = 1 / 2,
        lambda_ns = 400, nsbh_reference = kawaguchi_2016, risco = None,
        nsbh_ejecta_velocity = None, nsbh_ejecta_mass = None\<rparr>"]
  by simp

subsection \<open>The geometry of the two neutron-star classes\<close>

text \<open>
  C10. For the same inputs the two neutron-star classes assign the same attributes before
  the first property is read (so the same \<open>vrho\<close> and \<open>vz\<close>), their \<open>calculate_qej\<close> and
  \<open>calculate_phej\<close> are the same functions, and \<open>calculate_phej\<close> of an instance whose polar
  angle is \<open>q\<close> is \<open>2 * pi * q\<close>.
\<close>

theorem projection_choice_keeps_geometry:
  "NoProjection_attrs m1 m2 lam1 lam2 = Projection_attrs m1 m2 lam1 lam2
   \<and> NoProjection_calculate_qej = Projection_calculate_qej
   \<and> NoProjection_calculate_phej = Projection_calculate_phej
   \<and> NoProjection_calculate_phej (self\<lparr>qej := Some q\<rparr>) = Inr (2 * pi * q)
   \<and> Projection_calculate_phej (self\<lparr>qej := Some q\<rparr>) = Inr (2 * pi * q)"
proof -
  have "NoProjection_attrs m1 m2 lam1 lam2 = Projection_attrs m1 m2 lam1 lam2"
    by (simp add: NoProjection_attrs_def Projection_attrs_def)
  moreover have "NoProjection_calculate_qej = Projection_calculate_qej"
    by (rule ext) (simp add: NoProjection_calculate_qej_def Projection_calculate_qej_def)
  moreover have "NoProjection_calculate_phej = Projection_calculate_phej"
    by (rule ext) (simp add: NoProjection_calculate_phej_def Projection_calculate_phej_def)
  moreover have "NoProjection_calculate_phej (self\<lparr>qej := Some q\<rparr>) = Inr (2 * pi * q)"
    by (simp add: NoProjection_calculate_phej_def)
  moreover have "Projection_calculate_phej (self\<lparr>qej := Some q\<rparr>) = Inr (2 * pi * q)"
    by (simp add: Projection_calculate_phej_def)
  ultimately show ?thesis
    by simp
qed

subsection \<open>Ejecta masses and the constructors\<close>

lemma py_pow_pos_ex: "0 < x \<Longrightarrow> \<exists>v. py_pow x y = Inr v"
  by (simp add: py_pow_def)

lemma np_pow_pos_ex: "0 < x \<Longrightarrow> \<exists>v. np_pow x y = Inr v"
  by (simp add: np_pow_def py_pow_def)

lemma py_div_ok: "y \<noteq> 0 \<Longrightarrow> py_div x y = Inr (x / y)"
  by (simp add: py_div_def)

lemma np_div_ok: "y \<noteq> 0 \<Longrightarrow> np_div x y = Inr (x / y)"
  by (simp add: np_div_def)

lemma Projection_attrs_ok:
  assumes "0 < m1" "0 < m2" "0 < lam1" "0 < lam2"
  shows "\<exists>self. Projection_attrs m1 m2 lam1 lam2 = Inr self
           \<and> mass_1 self = m1 \<and> mass_2 self = m2
           \<and> c1 self = spec_compactness lam1 \<and> c2 self = spec_compactness lam2"
  using assms
  by (simp add: Projection_attrs_def compactness_eq calc_vrho_eq calc_vz_eq bind_err_Inr)

lemma NoProjection_attrs_ok:
  assumes "0 < m1" "0 < m2" "0 < lam1" "0 < lam2"
  shows "\<exists>self. NoProjection_attrs m1 m2 lam1 lam2 = Inr self
           \<and> mass_1 self = m1 \<and> mass_2 self = m2
           \<and> c1 self = spec_compactness lam1 \<and> c2 self = spec_compactness lam2"
  using assms
  by (simp add: NoProjection_attrs_def compactness_eq calc_vrho_eq calc_vz_eq bind_err_Inr)

lemma Projection_ejecta_mass_nonneg:
  assumes "0 < mass_1 self" "0 < mass_2 self" "0 < c1 self" "0 < c2 self"
  shows "\<exists>m. Projection_calculate_ejecta_mass self = Inr m \<and> 0 \<le> m"
proof -
  have mb1: "spec_baryonic_mass (mass_1 self) (c1 self) \<noteq> 0"
    using spec_baryonic_mass_pos [OF assms(1), of "c1 self"] by simp
  have mb2: "spec_baryonic_mass (mass_2 self) (c2 self) \<noteq> 0"
    using spec_baryonic_mass_pos [OF assms(2), of "c2 self"] by simp
  have q21: "0 < mass_2 self / mass_1 self" and q12: "0 < mass_1 self / mass_2 self"
    using assms by simp_all
  have d21: "py_div (mass_2 self) (mass_1 self) = Inr (mass_2 self / mass_1 self)"
   and d12: "py_div (mass_1 self) (mass_2 self) = Inr (mass_1 self / mass_2 self)"
    using assms by (simp_all add: py_div_ok)
  have b1: "calc_baryonic_mass (mass_1 self) (c1 self) = Inr (spec_baryonic_mass (mass_1 self) (c1 self))"
   and b2: "calc_baryonic_mass (mass_2 self) (c2 self) = Inr (spec_baryonic_mass (mass_2 self) (c2 self))"
    using assms by (simp_all add: baryonic_eq)
  obtain r21 r12 p21 p12 where pw:
    "py_pow (mass_2 self / mass_1 self) (1.0 / 3.0) = Inr r21"
    "py_pow (mass_1 self / mass_2 self) (1.0 / 3.0) = Inr r12"
    "py_pow (mass_2 self / mass_1 self) (-2.5484) = Inr p21"
    "py_pow (mass_1 self / mass_2 self) (-2.5484) = Inr p12"
    using py_pow_pos_ex [OF q21] py_pow_pos_ex [OF q12] by metis
  have nd: "\<And>x. np_div x (c1 self) = Inr (x / c1 self)"
    "\<And>x. np_div x (c2 self) = Inr (x / c2 self)"
    "\<And>x. np_div x (spec_baryonic_mass (mass_1 self) (c1 self)) = Inr (x / spec_baryonic_mass (mass_1 self) (c1 self))"
    "\<And>x. np_div x (spec_baryonic_mass (mass_2 self) (c2 self)) = Inr (x / spec_baryonic_mass (mass_2 self) (c2 self))"
    using assms mb1 mb2 by (simp_all add: np_div_ok)
  show ?thesis
    apply (simp only: Projection_calculate_ejecta_mass_def Let_def b1 b2 d21 d12 pw nd bind_err_Inr)
    apply (intro exI conjI, rule refl)
    apply simp
    done
qed

lemma NSBH_ejecta_mass_nonneg:
  assumes "0 < mass_ns self" "0 < mass_ratio self" "0 < lambda_ns self" "risco self = Some r"
  shows "\<exists>m. NSBH_calculate_ejecta_mass self = Inr m \<and> 0 \<le> m"
proof -
  let ?c = "spec_compactness (lambda_ns self)"
  have c: "0 < ?c" by (rule spec_compactness_pos)
  have mb: "0 < spec_baryonic_mass (mass_ns self) ?c"
    using assms(1) by (rule spec_baryonic_mass_pos)
  have nz: "?c \<noteq> 0" "spec_baryonic_mass (mass_ns self) ?c \<noteq> 0" using c mb by simp_all
  have "NSBH_calculate_ejecta_mass self = Inr (spec_baryonic_mass (mass_ns self) ?c *
          max (r * (mass_ratio self powr 1.352) * (-0.002269)
               + (mass_ratio self powr 0.2497) * (1 - 2 * ?c) * 0.04464 / ?c
               + ((1 - mass_ns self / spec_baryonic_mass (mass_ns self) ?c) * 2.431 + (-0.4159))) 0)"
    unfolding NSBH_calculate_ejecta_mass_def Let_def
    using assms c nz
    by (simp add: compactness_eq baryonic_eq bind_err_Inr np_div_ok py_pow_pos)
  moreover have "0 \<le> spec_baryonic_mass (mass_ns self) ?c *
          max (r * (mass_ratio self powr 1.352) * (-0.002269)
               + (mass_ratio self powr 0.2497) * (1 - 2 * ?c) * 0.04464 / ?c
               + ((1 - mass_ns self / spec_baryonic_mass (mass_ns self) ?c) * 2.431 + (-0.4159))) 0"
    using mb by (intro mult_nonneg_nonneg) simp_all
  ultimately show ?thesis by simp
qed

lemma NoProjection_ejecta_mass_ok:
  assumes "0 < mass_1 self" "0 < mass_2 self" "0 < c1 self" "0 < c2 self"
  shows "\<exists>m. NoProjection_calculate_ejecta_mass self = Inr m"
proof -
  have q21: "0 < mass_2 self / mass_1 self" and q12: "0 < mass_1 self / mass_2 self"
    using assms by simp_all
  obtain v where v: "np_pow 10 (- 0.0719 *
           (mass_1 self * (1 - 2 * c1 self) / c1 self + mass_2 self * (1 - 2 * c2 self) / c2 self) +
          0.2116 * (mass_1 self * (mass_2 self / mass_1 self) powr - 2.905 +
            mass_2 self * (mass_1 self / mass_2 self) powr - 2.905) + - 2.42) = Inr v"
    using np_pow_pos_ex [of 10] by fastforce
  show ?thesis
    unfolding NoProjection_calculate_ejecta_mass_def Let_def
    using assms q21 q12 v
    by (simp add: bind_err_Inr py_div_ok np_div_ok py_pow_pos)
qed

lemma OneComponentBNSNoProjection_raises:
  assumes "0 < m1" "0 < m2" "0 < lam1" "0 < lam2"
  shows "OneComponentBNSNoProjection m1 m2 lam1 lam2 = Inl TypeError"
proof -
  obtain self where s: "NoProjection_attrs m1 m2 lam1 lam2 = Inr self"
     "mass_1 self = m1" "mass_2 self = m2"
     "c1 self = spec_compactness lam1" "c2 self = spec_compactness lam2"
    using NoProjection_attrs_ok [OF assms] by blast
  obtain m where m: "NoProjection_calculate_ejecta_mass self = Inr m"
    using NoProjection_ejecta_mass_ok [of self] s assms spec_compactness_pos by auto
  show ?thesis
    by (simp add: OneComponentBNSNoProjection_def s(1) m bind_err_Inr bind_err_Inl call_float_def)
qed

lemma OneComponentBNSProjection_raises:
  assumes "0 < m1" "0 < m2" "0 < lam1" "0 < lam2"
  shows "OneComponentBNSProjection m1 m2 lam1 lam2 = Inl TypeError"
proof -
  obtain self where s: "Projection_attrs m1 m2 lam1 lam2 = Inr self"
     "mass_1 self = m1" "mass_2 self = m2"
     "c1 self = spec_compactness lam1" "c2 self = spec_compactness lam2"
    using Projection_attrs_ok [OF assms] by blast
  obtain m where m: "Projection_calculate_ejecta_mass self = Inr m"
    using Projection_ejecta_mass_nonneg [of self] s assms spec_compactness_pos by auto
  show ?thesis
    by (simp add: OneComponentBNSProjection_def s(1) m bind_err_Inr bind_err_Inl call_float_def)
qed

lemma OneComponentNSBH_raises:
  assumes "mns \<noteq> 0" "-1 \<le> chi" "chi \<le> 1"
  shows "OneComponentNSBH mbh mns chi lam = Inl TypeError"
  using assms
  by (simp add: OneComponentNSBH_def NSBH_attrs_def py_div_ok bind_err_Inr bind_err_Inl
      isco_radius_bpt call_float_def)

text \<open>
  C7. For positive masses and tidal deformabilities, \<open>calculate_ejecta_mass\<close> of
  \<open>OneComponentBNSProjection\<close> returns a non-negative number on the attributes the
  constructor assigns, and so does \<open>calculate_ejecta_mass\<close> of \<open>OneComponentNSBH\<close> on the
  attributes the constructor assigns, whatever number the attribute \<open>risco\<close> holds.
\<close>

theorem ejecta_mass_nonnegative:
  assumes "0 < m1" "0 < m2" "0 < lam1" "0 < lam2" "0 < mbh" "0 < mns" "0 < lam"
  shows "(\<exists>self m. Projection_attrs m1 m2 lam1 lam2 = Inr self
            \<and> Projection_calculate_ejecta_mass self = Inr m \<and> 0 \<le> m)
       \<and> (\<exists>self m. NSBH_attrs mbh mns chi lam = Inr self
            \<and> NSBH_calculate_ejecta_mass (self\<lparr>risco := Some r\<rparr>) = Inr m \<and> 0 \<le> m)"
proof
  obtain self where s: "Projection_attrs m1 m2 lam1 lam2 = Inr self"
     "mass_1 self = m1" "mass_2 self = m2"
     "c1 self = spec_compactness lam1" "c2 self = spec_compactness lam2"
    using Projection_attrs_ok [OF assms(1-4)] by blast
  have "\<exists>m. Projection_calculate_ejecta_mass self = Inr m \<and> 0 \<le> m"
    using Projection_ejecta_mass_nonneg [of self] s assms spec_compactness_pos by auto
  then show "\<exists>self m. Projection_attrs m1 m2 lam1 lam2 = Inr self
            \<and> Projection_calculate_ejecta_mass self = Inr m \<and> 0 \<le> m"
    using s(1) by blast
next
  let ?self = "\<lparr>mass_bh = mbh, mass_ns = mns, mass_ratio = mbh / mns, chi_eff = chi,
      lambda_ns = lam, nsbh_reference = kawaguchi_2016, risco = None,
      nsbh_ejecta_velocity = None, nsbh_ejecta_mass = None\<rparr>"
  have a: "NSBH_attrs mbh mns chi lam = Inr ?self"
    using assms by (simp add: NSBH_attrs_def py_div_ok bind_err_Inr)
  have "\<exists>m. NSBH_calculate_ejecta_mass (?self\<lparr>risco := Some r\<rparr>) = Inr m \<and> 0 \<le> m"
    using assms by (intro NSBH_ejecta_mass_nonneg [where r = r]) simp_all
  then show "\<exists>self m. NSBH_attrs mbh mns chi lam = Inr self
            \<and> NSBH_calculate_ejecta_mass (self\<lparr>risco := Some r\<rparr>) = Inr m \<and> 0 \<le> m"
    using a by blast
qed

theorem ejecta_mass_nonnegative_witness:
  "(0::real) < 1.4 \<and> (0::real) < 1.3 \<and> (0::real) < 400 \<and> (0::real) < 450
   \<and> (0::real) < 5 \<and> (0::real) < 1.4 \<and> (0::real) < 400
   \<and> (\<exists>self m. Projection_attrs 1.4 1.3 400 450 = Inr self
            \<and> Projection_calculate_ejecta_mass self = Inr m \<and> 0 \<le> m)
   \<and> (\<exists>self m. NSBH_attrs 5 1.4 0 400 = Inr self
            \<and> NSBH_calculate_ejecta_mass (self\<lparr>risco := Some 6\<rparr>) = Inr m \<and> 0 \<le> m)"
  using ejecta_mass_nonnegative [of "1.4" "1.3" 400 450 5 "1.4" 400 0 6] by simp

text \<open>
  C1. The three constructors do not complete on physically valid inputs: each reads a
  property, which is a float, and then calls it, which raises TypeError.
\<close>

theorem constructors_raise_TypeError:
  "OneComponentBNSNoProjection 1.4 1.3 400 450 = Inl TypeError
   \<and> OneComponentBNSProjection 1.4 1.3 400 450 = Inl TypeError
   \<and> OneComponentNSBH 5 1.4 0.5 400 = Inl TypeError"
  by (simp add: OneComponentBNSNoProjection_raises OneComponentBNSProjection_raises
      OneComponentNSBH_raises)

subsection \<open>The compactness at a tidal deformability of 300\<close>

lemma exp_upper_8:
  fixes x :: real
  assumes "0 \<le> x" "x \<le> 1"
  shows "exp x \<le> (\<Sum>m<8. x ^ m / fact m) + 3 * x ^ 8 / fact 8"
proof -
  obtain t where t: "\<bar>t\<bar> \<le> \<bar>x\<bar>" "exp x = (\<Sum>m<8. x ^ m / fact m) + exp t / fact 8 * x ^ 8"
    using Maclaurin_exp_le [of x 8] by blast
  have "t \<le> 1" using t(1) assms by linarith
  then have "exp t \<le> exp 1" by simp
  also have "\<dots> \<le> 3" by (rule exp_le)
  finally have e3: "exp t \<le> 3" .
  have "exp t / fact 8 * x ^ 8 \<le> 3 / fact 8 * x ^ 8"
    using e3 assms by (intro mult_right_mono divide_right_mono) simp_all
  then show ?thesis using t(2) by simp
qed

lemma exp_lower_8:
  fixes x :: real
  assumes "0 \<le> x"
  shows "(\<Sum>m<8. x ^ m / fact m) \<le> exp x"
proof -
  obtain t where t: "exp x = (\<Sum>m<8. x ^ m / fact m) + exp t / fact 8 * x ^ 8"
    using Maclaurin_exp_le [of x 8] by blast
  have "0 \<le> exp t / fact 8 * x ^ 8" using assms by simp
  then show ?thesis using t by linarith
qed

lemma sum8: "(\<Sum>m<8. x ^ m / fact m) = 1 + x + x^2/2 + x^3/6 + x^4/24 + x^5/120 + x^6/720 + x^7/5040" for x :: real
  by (simp add: lessThan_nat_numeral lessThan_Suc fact_numeral)

lemma exp_057035: "exp (0.57035::real) < 1.76889"
proof -
  have "exp (0.57035::real) \<le> (\<Sum>m<8. 0.57035 ^ m / fact m) + 3 * 0.57035 ^ 8 / fact 8"
    by (rule exp_upper_8) simp_all
  also have "\<dots> < 1.76889"
    unfolding sum8 by (simp add: fact_numeral power_divide)
  finally show ?thesis .
qed

lemma exp_05706: "(1.76932::real) < exp 0.5706"
proof -
  have "(1.76932::real) < (\<Sum>m<8. 0.5706 ^ m / fact m)"
    unfolding sum8 by (simp add: power_divide)
  also have "\<dots> \<le> exp 0.5706"
    by (rule exp_lower_8) simp
  finally show ?thesis .
qed

lemma ln_300_lower: "5.7035 < ln (300::real)"
proof -
  have "exp (5.7035::real) = exp (0.57035) ^ 10"
    by (simp add: exp_of_nat_mult [symmetric])
  also have "\<dots> < 1.76889 ^ 10"
    using exp_057035 by (intro power_strict_mono) simp_all
  also have "\<dots> < 300" by (simp add: power_divide)
  finally have "exp (5.7035::real) < 300" .
  then show ?thesis by (metis exp_less_cancel_iff exp_ln zero_less_numeral)
qed

lemma ln_300_upper: "ln (300::real) < 5.706"
proof -
  have "(300::real) < 1.76932 ^ 10" by (simp add: power_divide)
  also have "\<dots> < exp 0.5706 ^ 10"
    using exp_05706 by (intro power_strict_mono) simp_all
  also have "\<dots> = exp (5.706::real)"
    by (simp add: exp_of_nat_mult [symmetric])
  finally have "(300::real) < exp 5.706" .
  then show ?thesis by (metis exp_less_cancel_iff exp_ln zero_less_numeral)
qed


lemma spec_compactness_300_bounds:
  "0.1822 < spec_compactness 300" "spec_compactness 300 < 0.1824"
proof -
  let ?L = "ln (300::real)"
  have lo: "5.7035 < ?L" and hi: "?L < 5.706"
    by (rule ln_300_lower, rule ln_300_upper)
  have sq_lo: "5.7035\<^sup>2 < ?L\<^sup>2"
    using lo by (intro power_strict_mono) simp_all
  have sq_hi: "?L\<^sup>2 < 5.706\<^sup>2"
    using lo hi by (intro power_strict_mono) simp_all
  have v_lo: "(5.7035::real)\<^sup>2 = 32.52991225" and v_hi: "(5.706::real)\<^sup>2 = 32.558436"
    by (simp_all add: power2_eq_square)
  show "0.1822 < spec_compactness 300"
    unfolding spec_compactness_def using hi sq_lo v_lo by simp
  show "spec_compactness 300 < 0.1824"
    unfolding spec_compactness_def using lo sq_hi v_hi by simp
qed

lemma c300: "calc_compactness_from_lambda 300 = Inr (spec_compactness 300)"
  by (rule compactness_eq) simp

text \<open>
  C2, as stated: the value at a tidal deformability of 300 is not near 0.1473; it is more
  than 0.03 away.
\<close>

theorem calc_compactness_300_not_01473:
  "calc_compactness_from_lambda 300 = Inr (spec_compactness 300)
   \<and> 0.03 < \<bar>spec_compactness 300 - 0.1473\<bar>"
  using spec_compactness_300_bounds by (simp add: c300)

text \<open>
  C2, amended: \<open>calc_compactness_from_lambda\<close> at 300 returns the value of the published
  formula, which is 0.1823 to four decimal places.
\<close>

theorem calc_compactness_300_value:
  "calc_compactness_from_lambda 300 = Inr (spec_compactness 300)
   \<and> \<bar>spec_compactness 300 - 0.1823\<bar> < 0.0001"
proof -
  have "\<bar>spec_compactness 300 - 0.1823\<bar> < 0.0001"
    using spec_compactness_300_bounds by linarith
  then show ?thesis
    using c300 by (rule conjI [rotated])
qed

section \<open>Properties of the fit orchestrator\<close>

lemma fit_model_grb:
  assumes "tr_class t = Afterglow" "resolve_model e model = Inr m"
  shows "fit_model e name t model outdir sampler nlive (Some p) walks trunc True tm data_mode
           resume save_format mk kwargs w
       = call_run_sampler e
           \<lparr>sa_likelihood = gaussian_or_given
               ([(''truncate'', repr_bool trunc), (''truncate_method'', tm)] @ kwargs) t m mk,
            sa_priors = p, sa_label = data_mode @ ''_photon_index'',
            sa_sampler = sampler, sa_nlive = nlive,
            sa_outdir = outdir @ ''/GRB'' @ name @ ''/'' @ fn_name m, sa_plot = True,
            sa_use_ratio = False, sa_walks = walks, sa_resume = resume,
            sa_maxmcmc = 10 * walks, sa_result_class = ''RedbackResult'',
            sa_meta_data = make_meta_data (fn_name m) (lower (tr_class_name t)) (tr_dict t) mk,
            sa_nthreads = 4, sa_save_bounds = False,
            sa_nsteps = nlive, sa_nwalkers = walks, sa_save = save_format,
            sa_kwargs = [(''truncate'', repr_bool trunc), (''truncate_method'', tm)] @ kwargs\<rparr>
           (mkdir_parents (outdir @ ''/GRB'' @ name @ ''/'' @ fn_name m)
              (w\<lparr>prior_objs := (prior_objs w)(p \<mapsto> (deref w p)(''alpha_1'' \<mapsto> photon_index_prior t))\<rparr>))"
  using assms
  by (simp add: fit_model_def resolve_prior_def fit_grb_def set_alpha_1_def make_label_def Let_def)

text \<open>
  C3. A fit of an afterglow with \<open>use_photon_index_prior\<close> hands the sampler the prior
  dictionary the caller passed, in which \<open>alpha_1\<close> has been replaced: by Uniform(-10, -0.5)
  when the photon index of the transient is negative, and otherwise by a Gaussian with
  \<open>mu = -(photon_index + 1)\<close> and \<open>sigma = 0.1\<close>, so \<open>mu = -2.5\<close> for a photon index of 1.5.
  No other prior dictionary and no other entry of this one is changed.
\<close>

theorem fit_grb_photon_index_prior:
  assumes "tr_class t = Afterglow" "resolve_model e model = Inr m"
  shows "fit_model e name t model outdir sampler nlive (Some p) walks trunc True tm data_mode
           resume save_format mk kwargs w
       = call_run_sampler e
           \<lparr>sa_likelihood = gaussian_or_given
               ([(''truncate'', repr_bool trunc), (''truncate_method'', tm)] @ kwargs) t m mk,
            sa_priors = p, sa_label = data_mode @ ''_photon_index'',
            sa_sampler = sampler, sa_nlive = nlive,
            sa_outdir = outdir @ ''/GRB'' @ name @ ''/'' @ fn_name m, sa_plot = True,
            sa_use_ratio = False, sa_walks = walks, sa_resume = resume,
            sa_maxmcmc = 10 * walks, sa_result_class = ''RedbackResult'',
            sa_meta_data = make_meta_data (fn_name m) (lower (tr_class_name t)) (tr_dict t) mk,
            sa_nthreads = 4, sa_save_bounds = False,
            sa_nsteps = nlive, sa_nwalkers = walks, sa_save = save_format,
            sa_kwargs = [(''truncate'', repr_bool trunc), (''truncate_method'', tm)] @ kwargs\<rparr>
           (mkdir_parents (outdir @ ''/GRB'' @ name @ ''/'' @ fn_name m)
              (w\<lparr>prior_objs := (prior_objs w)(p \<mapsto> (deref w p)(''alpha_1'' \<mapsto> photon_index_prior t))\<rparr>))
     \<and> photon_index_prior t
         = (if tr_photon_index t < 0
            then Uniform (-10) (-0.5) (Some ''alpha_1'') latex_alpha_1
            else Gaussian (- (tr_photon_index t + 1)) 0.1 None latex_alpha_1)
     \<and> photon_index_prior (t\<lparr>tr_photon_index := 1.5\<rparr>) = Gaussian (-2.5) 0.1 None latex_alpha_1
     \<and> photon_index_prior (t\<lparr>tr_photon_index := -1\<rparr>)
         = Uniform (-10) (-0.5) (Some ''alpha_1'') latex_alpha_1"
  using fit_model_grb [OF assms] by (simp add: photon_index_prior_def)

theorem fit_grb_photon_index_prior_witness:
  "tr_class (example_transient Afterglow ''Afterglow'' 1.5) = Afterglow
   \<and> resolve_model example_env (ModelName ''evolving_magnetar'') = Inr example_model
   \<and> fit_model example_env ''140903A'' (example_transient Afterglow ''Afterglow'' 1.5)
         (ModelName ''evolving_magnetar'') ''.'' ''dynesty'' 2000 (Some 0) 200 True True
         ''prompt_time_error'' ''flux'' True ''json'' ''None'' [] example_world
       = call_run_sampler example_env
           \<lparr>sa_likelihood = gaussian_or_given
               ([(''truncate'', repr_bool True), (''truncate_method'', ''prompt_time_error'')] @ []) (example_transient Afterglow ''Afterglow'' 1.5) example_model ''None'',
            sa_priors = 0, sa_label = ''flux'' @ ''_photon_index'',
            sa_sampler = ''dynesty'', sa_nlive = 2000,
            sa_outdir = ''.'' @ ''/GRB'' @ ''140903A'' @ ''/'' @ fn_name example_model, sa_plot = True,
            sa_use_ratio = False, sa_walks = 200, sa_resume = True,
            sa_maxmcmc = 10 * 200, sa_result_class = ''RedbackResult'',
            sa_meta_data = make_meta_data (fn_name example_model) (lower (tr_class_name (example_transient Afterglow ''Afterglow'' 1.5))) (tr_dict (example_transient Afterglow ''Afterglow'' 1.5)) ''None'',
            sa_nthreads = 4, sa_save_bounds = False,
            sa_nsteps = 2000, sa_nwalkers = 200, sa_save = ''json'',
            sa_kwargs = [(''truncate'', repr_bool True), (''truncate_method'', ''prompt_time_error'')] @ []\<rparr>
           (mkdir_parents (''.'' @ ''/GRB'' @ ''140903A'' @ ''/'' @ fn_name example_model)
              (example_world\<lparr>prior_objs := (prior_objs example_world)(0 \<mapsto> (deref example_world 0)(''alpha_1'' \<mapsto> photon_index_prior (example_transient Afterglow ''Afterglow'' 1.5)))\<rparr>))
   \<and> photon_index_prior (example_transient Afterglow ''Afterglow'' 1.5) = Gaussian (-2.5) 0.1 None latex_alpha_1"
proof -
  have h1: "tr_class (example_transient Afterglow ''Afterglow'' 1.5) = Afterglow"
    by (simp add: example_transient_def)
  have h2: "resolve_model example_env (ModelName ''evolving_magnetar'') = Inr example_model"
    by (simp add: resolve_model_def example_env_def)
  have "photon_index_prior (example_transient Afterglow ''Afterglow'' 1.5) = Gaussian (-2.5) 0.1 None latex_alpha_1"
    by (simp add: photon_index_prior_def example_transient_def)
  then show ?thesis
    using h1 h2 fit_grb_photon_index_prior [OF h1 h2, where name = "''140903A''"
        and outdir = "''.''" and sampler = "''dynesty''" and nlive = 2000 and p = 0
        and walks = 200 and trunc = True and tm = "''prompt_time_error''"
        and data_mode = "''flux''" and resume = True and save_format = "''json''"
        and mk = "''None''" and kwargs = "[]" and w = example_world]
    by simp
qed

text \<open>
  C4, as stated: on a transient of an unrecognized class \<open>fit_model\<close> raises the built-in
  ValueError, not an error called UnsupportedTransientType.
\<close>

theorem fit_model_unrecognized_raises_ValueError:
  "fit_model example_env ''140903A'' (example_transient Unrecognized ''Foo'' 1.5)
         (ModelName ''evolving_magnetar'') ''.'' ''dynesty'' 2000 (Some 0) 200 True False
         ''prompt_time_error'' ''flux'' True ''json'' ''None'' [] example_world
       = (Inl (Err ''ValueError'' ''Source type Foo not known''), example_world)
   \<and> error_class (Err ''ValueError'' ''Source type Foo not known'') \<noteq> ''UnsupportedTransientType''"
  by (simp add: fit_model_def resolve_model_def resolve_prior_def example_env_def
      example_transient_def example_model_def ValueError_def)

text \<open>
  C4, amended: on a transient of an unrecognized class \<open>fit_model\<close> fails, the sampler is
  not run, and no directory or file is created. When the model is found and a prior is
  passed, the error is \<open>ValueError('Source type <class name> not known')\<close> and nothing at all
  has changed.
\<close>

theorem fit_model_unrecognized_no_side_effect:
  assumes "tr_class t = Unrecognized" "resolve_model e model = Inr m"
  shows "fit_model e name t model outdir sampler nlive (Some p) walks trunc upi tm data_mode
           resume save_format mk kwargs w
         = (Inl (ValueError (''Source type '' @ tr_class_name t @ '' not known'')), w)
       \<and> (\<exists>err w'. fit_model e' name t model' outdir sampler nlive prior walks trunc upi tm
             data_mode resume save_format mk kwargs w = (Inl err, w')
           \<and> dirs w' = dirs w \<and> files w' = files w \<and> sampler_calls w' = sampler_calls w)"
proof
  show "fit_model e name t model outdir sampler nlive (Some p) walks trunc upi tm data_mode
           resume save_format mk kwargs w
         = (Inl (ValueError (''Source type '' @ tr_class_name t @ '' not known'')), w)"
    using assms by (simp add: fit_model_def resolve_prior_def)
  show "\<exists>err w'. fit_model e' name t model' outdir sampler nlive prior walks trunc upi tm
             data_mode resume save_format mk kwargs w = (Inl err, w')
           \<and> dirs w' = dirs w \<and> files w' = files w \<and> sampler_calls w' = sampler_calls w"
    using assms(1)
    by (auto simp add: fit_model_def resolve_prior_def split: sum.splits option.splits prod.splits)
qed

theorem fit_model_unrecognized_no_side_effect_witness:
  "tr_class (example_transient Unrecognized ''Foo'' 1.5) = Unrecognized
   \<and> resolve_model example_env (ModelName ''evolving_magnetar'') = Inr example_model
   \<and> fit_model example_env ''140903A'' (example_transient Unrecognized ''Foo'' 1.5)
         (ModelName ''evolving_magnetar'') ''.'' ''dynesty'' 2000 (Some 0) 200 True False
         ''prompt_time_error'' ''flux'' True ''json'' ''None'' [] example_world
       = (Inl (ValueError (''Source type '' @ ''Foo'' @ '' not known'')), example_world)"
proof -
  have h1: "tr_class (example_transient Unrecognized ''Foo'' 1.5) = Unrecognized"
    by (simp add: example_transient_def)
  have h2: "resolve_model example_env (ModelName ''evolving_magnetar'') = Inr example_model"
    by (simp add: resolve_model_def example_env_def)
  have "tr_class_name (example_transient Unrecognized ''Foo'' 1.5) = ''Foo''"
    by (simp add: example_transient_def)
  then show ?thesis
    using h1 h2 fit_model_unrecognized_no_side_effect [OF h1 h2, where name = "''140903A''"
        and outdir = "''.''" and sampler = "''dynesty''" and nlive = 2000 and p = 0
        and walks = 200 and trunc = True and upi = False and tm = "''prompt_time_error''"
        and data_mode = "''flux''" and resume = True and save_format = "''json''"
        and mk = "''None''" and kwargs = "[]" and w = example_world]
    by simp
qed

section \<open>Properties of the model comparison\<close>

lemma read_result_fst:
  "fst (read_result e model GRB path trunc upi w)
     = (case read_in_result e (result_filename path GRB model upi) (files w) of
          Inl err \<Rightarrow> Inl err
        | Inr r \<Rightarrow>
          (case load_data e GRB path trunc of
             Inl err \<Rightarrow> Inl err
           | Inr d \<Rightarrow> Inr (r, d)))"
  by (simp add: read_result_def mkdir_parents_def Let_def split: sum.splits)

lemma read_result_effects:
  "files (snd (read_result e model GRB path trunc upi w)) = files w
   \<and> sampler_calls (snd (read_result e model GRB path trunc upi w)) = sampler_calls w"
  by (simp add: read_result_def mkdir_parents_def Let_def split: sum.splits)

lemma calculate_BF_fst:
  "fst (calculate_BF e model1 model2 GRB path upi w)
     = (case read_in_result e (result_filename path GRB model1 upi) (files w) of
          Inl err \<Rightarrow> Inl err
        | Inr r1 \<Rightarrow>
          (case load_data e GRB path True of
             Inl err \<Rightarrow> Inl err
           | Inr d \<Rightarrow>
             (case read_in_result e (result_filename path GRB model2 upi) (files w) of
                Inl err \<Rightarrow> Inl err
              | Inr r2 \<Rightarrow> Inr (float_sub (log_evidence r1) (log_evidence r2)))))"
proof -
  obtain x1 w1 where a: "read_result e model1 GRB path True upi w = (x1, w1)"
    by (cases "read_result e model1 GRB path True upi w")
  obtain x2 w2 where b: "read_result e model2 GRB path True upi w1 = (x2, w2)"
    by (cases "read_result e model2 GRB path True upi w1")
  have f1: "files w1 = files w"
    using read_result_effects [of e model1 GRB path True upi w] a by simp
  have x1: "x1 = (case read_in_result e (result_filename path GRB model1 upi) (files w) of
          Inl err \<Rightarrow> Inl err
        | Inr r \<Rightarrow>
          (case load_data e GRB path True of
             Inl err \<Rightarrow> Inl err
           | Inr d \<Rightarrow> Inr (r, d)))"
    using read_result_fst [of e model1 GRB path True upi w] a by simp
  have x2: "x2 = (case read_in_result e (result_filename path GRB model2 upi) (files w) of
          Inl err \<Rightarrow> Inl err
        | Inr r \<Rightarrow>
          (case load_data e GRB path True of
             Inl err \<Rightarrow> Inl err
           | Inr d \<Rightarrow> Inr (r, d)))"
    using read_result_fst [of e model2 GRB path True upi w1] b f1 by simp
  show ?thesis
    unfolding calculate_BF_def a
    by (simp add: b x1 x2 split: sum.splits)
qed

lemma calculate_BF_effects:
  "files (snd (calculate_BF e model1 model2 GRB path upi w)) = files w
   \<and> sampler_calls (snd (calculate_BF e model1 model2 GRB path upi w)) = sampler_calls w"
proof -
  obtain r1 w1 where a: "read_result e model1 GRB path True upi w = (r1, w1)"
    by (cases "read_result e model1 GRB path True upi w")
  obtain r2 w2 where b: "read_result e model2 GRB path True upi w1 = (r2, w2)"
    by (cases "read_result e model2 GRB path True upi w1")
  have e1: "files w1 = files w" "sampler_calls w1 = sampler_calls w"
    using read_result_effects [of e model1 GRB path True upi w] a by simp_all
  have e2: "files w2 = files w1" "sampler_calls w2 = sampler_calls w1"
    using read_result_effects [of e model2 GRB path True upi w1] b by simp_all
  show ?thesis
    using a b e1 e2 by (simp add: calculate_BF_def split: sum.splits prod.splits)
qed

lemma float_sub_self: "float_sub x x = (if is_finite x then Fin 0 else NaN)"
  by (cases x) simp_all

lemma example_reads:
  "read_in_result example_analysis_env (result_filename ''.'' ''140903A'' ''a'' False)
       (files example_store) = Inr (example_result (-10))"
  "read_in_result example_analysis_env (result_filename ''.'' ''140903A'' ''b'' False)
       (files example_store) = Inr (example_result (-12))"
  "read_in_result example_analysis_env (result_filename ''.'' ''140903A'' ''n'' False)
       (files example_store) = Inr \<lparr>log_evidence = NaN, posterior = []\<rparr>"
  "read_in_result example_analysis_env (result_filename ''.'' ''140903A'' ''c'' False)
       (files example_store)
     = Inl (Err ''OSError'' (no_result_message ''./GRB140903A/c/result_result.json''))"
  "read_in_result example_failing_loader_env = read_in_result example_analysis_env"
  "load_data example_analysis_env ''140903A'' ''.'' True = Inr ''data''"
  "load_data example_failing_loader_env ''140903A'' ''.'' True = Inl (Err ''OSError'' ''no data'')"
  by (simp_all add: example_analysis_env_def example_failing_loader_env_def example_store_def
      bilby_read_in_result_def result_filename_def result_path_def load_data_def)

text \<open>
  C5, as stated: a model compared with itself gives \<open>nan\<close>, not 0.0, when its stored
  log-evidence is \<open>nan\<close>; and with both results in the store the comparison still fails
  when the data of the burst do not load.
\<close>

theorem calculate_BF_self_comparison_nan:
  "fst (calculate_BF example_analysis_env ''n'' ''n'' ''140903A'' ''.'' False example_store)
     = Inr NaN
   \<and> NaN \<noteq> Fin 0
   \<and> fst (calculate_BF example_failing_loader_env ''a'' ''b'' ''140903A'' ''.'' False
        example_store) = Inl (Err ''OSError'' ''no data'')"
  by (simp add: calculate_BF_fst example_reads)

text \<open>
  C5, amended: when the reader returns both results and the data of the burst load,
  \<open>calculate_BF\<close> returns the log-evidence of the first result minus that of the second in
  float arithmetic; for the same model on both sides it returns 0.0 when the log-evidence
  is finite and \<open>nan\<close> when it is not.
\<close>

theorem calculate_BF_difference:
  assumes "read_in_result e (result_filename path GRB model1 upi) (files w) = Inr r1"
      and "read_in_result e (result_filename path GRB model2 upi) (files w) = Inr r2"
      and "load_data e GRB path True = Inr d"
  shows "fst (calculate_BF e model1 model2 GRB path upi w)
           = Inr (float_sub (log_evidence r1) (log_evidence r2))
       \<and> fst (calculate_BF e model1 model1 GRB path upi w)
           = Inr (if is_finite (log_evidence r1) then Fin 0 else NaN)"
  using assms by (simp add: calculate_BF_fst float_sub_self)

theorem calculate_BF_difference_witness:
  "read_in_result example_analysis_env (result_filename ''.'' ''140903A'' ''a'' False)
       (files example_store) = Inr (example_result (-10))
   \<and> read_in_result example_analysis_env (result_filename ''.'' ''140903A'' ''b'' False)
       (files example_store) = Inr (example_result (-12))
   \<and> load_data example_analysis_env ''140903A'' ''.'' True = Inr ''data''
   \<and> fst (calculate_BF example_analysis_env ''a'' ''b'' ''140903A'' ''.'' False example_store)
       = Inr (Fin 2)
   \<and> fst (calculate_BF example_analysis_env ''a'' ''a'' ''140903A'' ''.'' False example_store)
       = Inr (Fin 0)"
  using example_reads(1,2,6)
    calculate_BF_difference [OF example_reads(1) example_reads(2) example_reads(6)]
  by (simp add: example_result_def)

text \<open>
  C6, as stated: with the result of the second model missing from the store, the error is
  the one bilby's reader raises, not an error called ResultNotFound.
\<close>

theorem calculate_BF_missing_raises_reader_error:
  "fst (calculate_BF example_analysis_env ''a'' ''c'' ''140903A'' ''.'' False example_store)
     = Inl (Err ''OSError'' (no_result_message ''./GRB140903A/c/result_result.json''))
   \<and> error_class (Err ''OSError'' (no_result_message ''./GRB140903A/c/result_result.json''))
       \<noteq> ''ResultNotFound''"
  by (simp add: calculate_BF_fst example_reads)

text \<open>
  C6, amended: \<open>calculate_BF\<close> asks the reader for the file of the first model, loads the
  data of the burst, and asks the reader for the file of the second model. When the
  reader fails on the first file the result is that error; when it returns the first
  result and the data do not load the result is the error of the loader; when the data
  load and the reader fails on the second file the result is that error. Each error is
  passed on unchanged. In every case the stored files are left as they are and the sampler
  is not run.
\<close>

theorem calculate_BF_missing_result:
  "fst (calculate_BF e model1 model2 GRB path upi w)
     = (case read_in_result e (result_filename path GRB model1 upi) (files w) of
          Inl err \<Rightarrow> Inl err
        | Inr r1 \<Rightarrow>
          (case load_data e GRB path True of
             Inl err \<Rightarrow> Inl err
           | Inr d \<Rightarrow>
             (case read_in_result e (result_filename path GRB model2 upi) (files w) of
                Inl err \<Rightarrow> Inl err
              | Inr r2 \<Rightarrow> Inr (float_sub (log_evidence r1) (log_evidence r2)))))
   \<and> files (snd (calculate_BF e model1 model2 GRB path upi w)) = files w
   \<and> sampler_calls (snd (calculate_BF e model1 model2 GRB path upi w)) = sampler_calls w"
  using calculate_BF_fst [of e model1 model2 GRB path upi w]
    calculate_BF_effects [of e model1 model2 GRB path upi w]
  by simp

theorem calculate_BF_missing_result_witness:
  "fst (calculate_BF example_analysis_env ''c'' ''a'' ''140903A'' ''.'' False example_store)
     = Inl (Err ''OSError'' (no_result_message ''./GRB140903A/c/result_result.json''))
   \<and> fst (calculate_BF example_analysis_env ''a'' ''c'' ''140903A'' ''.'' False example_store)
       = Inl (Err ''OSError'' (no_result_message ''./GRB140903A/c/result_result.json''))
   \<and> fst (calculate_BF example_failing_loader_env ''a'' ''c'' ''140903A'' ''.'' False
        example_store) = Inl (Err ''OSError'' ''no data'')
   \<and> files (snd (calculate_BF example_analysis_env ''a'' ''c'' ''140903A'' ''.'' False
        example_store)) = files example_store
   \<and> sampler_calls (snd (calculate_BF example_analysis_env ''a'' ''c'' ''140903A'' ''.'' False
        example_store)) = sampler_calls example_store"
  using calculate_BF_missing_result [of example_analysis_env "''c''" "''a''" "''140903A''"
      "''.''" False example_store]
    calculate_BF_missing_result [of example_analysis_env "''a''" "''c''" "''140903A''"
      "''.''" False example_store]
    calculate_BF_missing_result [of example_failing_loader_env "''a''" "''c''" "''140903A''"
      "''.''" False example_store]
  by (simp add: example_reads)

end
